theory Spec2Isabelle
  imports Main "HOL-Library.Sublist" "HOL-Library.Char_ord"
begin

section \<open>AuroraSkins submission client: the metadata extractor\<close>

text \<open>
  \<^verbatim>\<open>src/src/app.ts\<close>, \<^verbatim>\<open>parseXzpMetadata\<close>. The file is read with
  \<^verbatim>\<open>readAsText(file, 'ISO-8859-1')\<close>; the input of the model is the text that the reader
  hands to \<^verbatim>\<open>onload\<close>, a \<^typ>\<open>string\<close> whose elements are its characters. A failed read
  (\<^verbatim>\<open>reader.onerror\<close>) is the input \<open>None\<close>. \<^verbatim>\<open>JSON.parse\<close> belongs to the
  platform: it is a parameter that returns \<open>None\<close> where the platform function throws.
\<close>

datatype parse_error =
    ReadFailed          \<comment> \<open>'Failed to read skin file.'\<close>
  | BlockNotFound       \<comment> \<open>'Could not find metadata block in skin file.'\<close>
  | EndNotFound         \<comment> \<open>'Could not find the end of the metadata block.'\<close>
  | JsonParseFailed     \<comment> \<open>'Failed to parse extracted JSON metadata.'\<close>

definition metaver_marker :: string where
  "metaver_marker = [CHR ''{'', CHR 0x22] @ ''metaver'' @ [CHR 0x22]"

text \<open>\<^verbatim>\<open>text.indexOf(pattern)\<close>: the least position at which \<open>pattern\<close> occurs, \<open>None\<close>
  for the result \<^verbatim>\<open>-1\<close>.\<close>

fun indexOf :: "string \<Rightarrow> string \<Rightarrow> nat option" where
  "indexOf [] pat = (if pat = [] then Some 0 else None)"
| "indexOf (c # cs) pat =
     (if prefix pat (c # cs) then Some 0 else map_option Suc (indexOf cs pat))"

text \<open>\<^verbatim>\<open>text.substring(from, to)\<close> for \<open>from \<le> to\<close>.\<close>

definition substring :: "string \<Rightarrow> nat \<Rightarrow> nat \<Rightarrow> string" where
  "substring text from to = take (to - from) (drop from text)"

text \<open>
  The loop \<^verbatim>\<open>for (let i = startIndex; i < text.length; i++)\<close> with its two local
  variables: \<open>scanBraces text i openBraces\<close> is the run of the loop from the iteration with
  index \<open>i\<close> and counter \<open>openBraces\<close>. The first component is the final \<^verbatim>\<open>endIndex\<close>
  (\<open>None\<close> for \<^verbatim>\<open>-1\<close>); the second lists, in order, the positions \<open>i\<close> whose character
  \<^verbatim>\<open>text[i]\<close> an iteration has examined.
\<close>

function scanBraces :: "string \<Rightarrow> nat \<Rightarrow> int \<Rightarrow> nat option \<times> nat list" where
  "scanBraces text i openBraces =
     (if i < length text then
        (let openBraces' =
               (if text ! i = CHR ''{'' then openBraces + 1
                else if text ! i = CHR ''}'' then openBraces - 1
                else openBraces)
         in if openBraces' = 0 then (Some i, [i])
            else (case scanBraces text (i + 1) openBraces' of
                    (endIndex, visited) \<Rightarrow> (endIndex, i # visited)))
      else (None, []))"
  by pat_completeness auto
termination
  by (relation "measure (\<lambda>(text, i, openBraces). length text - i)") auto

declare scanBraces.simps [simp del]

definition parseXzpMetadata ::
  "(string \<Rightarrow> 'j option) \<Rightarrow> string option \<Rightarrow> parse_error + 'j" where
  "parseXzpMetadata json_parse file =
     (case file of
        None \<Rightarrow> Inl ReadFailed
      | Some text \<Rightarrow>
         (case indexOf text metaver_marker of
            None \<Rightarrow> Inl BlockNotFound
          | Some startIndex \<Rightarrow>
             (case fst (scanBraces text startIndex 0) of
                None \<Rightarrow> Inl EndNotFound
              | Some endIndex \<Rightarrow>
                 (case json_parse (substring text startIndex (endIndex + 1)) of
                    None \<Rightarrow> Inl JsonParseFailed
                  | Some metadata \<Rightarrow> Inr metadata))))"

section \<open>Values and state of the client\<close>

text \<open>
  Values produced by \<^verbatim>\<open>JSON.parse\<close>. An object is the list of its own properties; a
  property read takes the first entry with the key. Numbers are carried as integers: the
  client only tests them for being zero.
\<close>

datatype json =
    JNull
  | JBool bool
  | JNumber int
  | JString string
  | JArray "json list"
  | JObject "(string \<times> json) list"

datatype js_error =
    TypeError           \<comment> \<open>a property read on \<^verbatim>\<open>null\<close>/\<^verbatim>\<open>undefined\<close>, a call of a non-function\<close>
  | JsError string      \<comment> \<open>\<^verbatim>\<open>throw new Error(message)\<close>\<close>

text \<open>\<^verbatim>\<open>!v\<close> is \<open>\<not> truthy v\<close>.\<close>

fun truthy :: "json \<Rightarrow> bool" where
  "truthy JNull = False"
| "truthy (JBool b) = b"
| "truthy (JNumber n) = (n \<noteq> 0)"
| "truthy (JString s) = (s \<noteq> [])"
| "truthy (JArray xs) = True"
| "truthy (JObject kvs) = True"

text \<open>
  \<^verbatim>\<open>v.key\<close> for the keys the client reads (\<^verbatim>\<open>id\<close>, \<^verbatim>\<open>skinname\<close>, \<^verbatim>\<open>author\<close>,
  \<^verbatim>\<open>name\<close>, \<^verbatim>\<open>code\<close>, \<dots>), none of which a string, number, boolean or array has:
  \<open>Inr None\<close> is \<^verbatim>\<open>undefined\<close>, and the read throws on \<^verbatim>\<open>null\<close>.
\<close>

fun getProp :: "json \<Rightarrow> string \<Rightarrow> js_error + json option" where
  "getProp JNull key = Inl TypeError"
| "getProp (JObject kvs) key = Inr (map_of kvs key)"
| "getProp v key = Inr None"

record File =
  file_name :: string
  file_size :: nat

text \<open>A file input of the page: \<^verbatim>\<open>input.files?.[0]\<close> and
  \<^verbatim>\<open>parseInt(input.dataset.maxSize || '0')\<close>, where \<open>None\<close> is \<^verbatim>\<open>NaN\<close>. The
  attribute comes from the page markup.\<close>

record fileInput =
  files0 :: "File option"
  dataMaxSize :: "int option"

text \<open>The values of the form controls when \<^verbatim>\<open>handleAddToQueue\<close> runs.\<close>

record form =
  submissionType :: string
  backgroundName :: string
  backgroundAuthor :: string
  backgroundImage :: fileInput
  skinFile :: fileInput
  skinScreenshot :: fileInput
  skinWebsite :: string
  coverflowFile :: fileInput
  coverflowScreenshot :: fileInput
  coverflowWebsite :: string

record queuedFile =
  "file" :: File
  desiredPath :: string
  maxSize :: "int option"

record submissionItem =
  item_id :: nat
  item_type :: string
  item_name :: string
  item_author :: string
  item_website :: "string option"
  item_files :: "queuedFile list"
  item_metadata :: "json option"

datatype statusClass = StatusSuccess | StatusError | StatusInfo

text \<open>
  The global variables of \<^verbatim>\<open>app.ts\<close>, the browser's \<^verbatim>\<open>localStorage\<close>, and the
  message last shown by \<^verbatim>\<open>showStatus\<close>. \<open>octokit\<close> is the \<^verbatim>\<open>auth\<close> value of the
  \<^verbatim>\<open>Octokit\<close> client, \<open>None\<close> before one is created.
\<close>

record client =
  octokit :: "json option option"
  submissionQueue :: "submissionItem list"
  currentSkinMetadata :: json
  currentCoverflowMetadata :: json
  nextItemId :: nat
  existingContentList :: "json list"
  localStorage :: "string \<rightharpoonup> string"
  status :: "(string \<times> statusClass) option"

definition initial_client :: "(string \<rightharpoonup> string) \<Rightarrow> client" where
  "initial_client storage =
     \<lparr>octokit = None, submissionQueue = [], currentSkinMetadata = JNull,
      currentCoverflowMetadata = JNull, nextItemId = 0, existingContentList = [],
      localStorage = storage, status = None\<rparr>"

definition showStatus :: "string \<Rightarrow> statusClass \<Rightarrow> client \<Rightarrow> client" where
  "showStatus message type st = st\<lparr>status := Some (message, type)\<rparr>"

text \<open>\<^verbatim>\<open>resetForms\<close> also empties the inputs of the page, which are an argument of
  each operation here.\<close>

definition resetForms :: "client \<Rightarrow> client" where
  "resetForms st = st\<lparr>currentSkinMetadata := JNull, currentCoverflowMetadata := JNull\<rparr>"

section \<open>Adding a submission to the queue\<close>

text \<open>
  \<^verbatim>\<open>s.toLowerCase().replace(/[^a-z0-9]/g, '')\<close>; \<^verbatim>\<open>toLowerCase\<close> belongs to the
  platform and is a parameter.
\<close>

definition sanitize :: "(string \<Rightarrow> string) \<Rightarrow> string \<Rightarrow> string" where
  "sanitize toLowerCase s =
     filter (\<lambda>c. c \<in> set (''abcdefghijklmnopqrstuvwxyz'' @ ''0123456789'')) (toLowerCase s)"

text \<open>\<^verbatim>\<open>v.toLowerCase()\<close> on a property value: only a string has the method.\<close>

fun asString :: "json option \<Rightarrow> js_error + string" where
  "asString (Some (JString s)) = Inr s"
| "asString v = Inl TypeError"

text \<open>\<^verbatim>\<open>existingContentList.some(existing => existing.id === itemId)\<close>: the entries
  are visited in order up to the first match, and a \<^verbatim>\<open>null\<close> entry throws.\<close>

fun someHasId :: "json list \<Rightarrow> string \<Rightarrow> js_error + bool" where
  "someHasId [] itemId = Inr False"
| "someHasId (existing # rest) itemId =
     (case getProp existing ''id'' of
        Inl e \<Rightarrow> Inl e
      | Inr v \<Rightarrow> if v = Some (JString itemId) then Inr True else someHasId rest itemId)"

definition alreadyExists :: "string \<Rightarrow> string" where
  "alreadyExists itemId =
     ''Error: An item with ID '' @ [CHR 0x27] @ itemId @ [CHR 0x27] @ '' already exists.''"

text \<open>The tail of \<^verbatim>\<open>handleAddToQueue\<close>, \<^verbatim>\<open>if (item) { ... }\<close>;
  \<^verbatim>\<open>updateQueueDisplay\<close> redraws the list of the page from the queue and changes no
  variable.\<close>

definition pushItem :: "submissionItem \<Rightarrow> client \<Rightarrow> client" where
  "pushItem item st =
     showStatus (''Added '' @ [CHR 0x22] @ item_name item @ [CHR 0x22] @ '' to the queue.'')
       StatusSuccess
       (resetForms
         (st\<lparr>submissionQueue := submissionQueue st @ [item\<lparr>item_id := nextItemId st\<rparr>],
             nextItemId := nextItemId st + 1\<rparr>))"

definition handleAddToQueue ::
  "(string \<Rightarrow> string) \<Rightarrow> form \<Rightarrow> client \<Rightarrow> js_error + client" where
  "handleAddToQueue toLowerCase fm st =
     (let type = submissionType fm in
      if type = [] then Inr (showStatus ''Please select a content type.'' StatusError st)
      else if type = ''background'' then
        (let name = backgroundName fm; author = backgroundAuthor fm in
         case files0 (backgroundImage fm) of
           None \<Rightarrow> Inr (showStatus ''Please fill all fields for the background.'' StatusError st)
         | Some imageFile \<Rightarrow>
             if name = [] \<or> author = [] then
               Inr (showStatus ''Please fill all fields for the background.'' StatusError st)
             else
               (let sanitizedName = sanitize toLowerCase name;
                    sanitizedAuthor = sanitize toLowerCase author;
                    itemId = ''bg.'' @ sanitizedAuthor @ ''.'' @ sanitizedName
                in case someHasId (existingContentList st) itemId of
                     Inl e \<Rightarrow> Inl e
                   | Inr True \<Rightarrow> Inr (showStatus (alreadyExists itemId) StatusError st)
                   | Inr False \<Rightarrow>
                       Inr (pushItem
                         \<lparr>item_id = 0, item_type = type, item_name = name, item_author = author,
                          item_website = None,
                          item_files = [\<lparr>file = imageFile,
                                    desiredPath = ''repo/backgrounds/bg.'' @ sanitizedAuthor
                                                  @ ''.'' @ sanitizedName @ ''.jpg'',
                                    maxSize = dataMaxSize (backgroundImage fm)\<rparr>],
                          item_metadata = None\<rparr> st)))
      else if type = ''skin'' then
        (case (files0 (skinFile fm), files0 (skinScreenshot fm)) of
           (Some skinFile', Some screenshotFile) \<Rightarrow>
             if skinWebsite fm = [] \<or> \<not> truthy (currentSkinMetadata st) then
               Inl (JsError (''Please provide a valid skin file, a screenshot, a website, ''
                             @ ''and ensure metadata is parsed.''))
             else
               (case getProp (currentSkinMetadata st) ''skinname'' of
                  Inl e \<Rightarrow> Inl e
                | Inr skinname \<Rightarrow>
               (case getProp (currentSkinMetadata st) ''author'' of
                  Inl e \<Rightarrow> Inl e
                | Inr author \<Rightarrow>
               (case asString skinname of
                  Inl e \<Rightarrow> Inl e
                | Inr skinname' \<Rightarrow>
               (case asString author of
                  Inl e \<Rightarrow> Inl e
                | Inr author' \<Rightarrow>
               (let sanitizedName = sanitize toLowerCase skinname';
                    sanitizedAuthor = sanitize toLowerCase author';
                    itemId = ''skin.'' @ sanitizedAuthor @ ''.'' @ sanitizedName
                in case someHasId (existingContentList st) itemId of
                     Inl e \<Rightarrow> Inl e
                   | Inr True \<Rightarrow> Inr (showStatus (alreadyExists itemId) StatusError st)
                   | Inr False \<Rightarrow>
                       Inr (pushItem
                         \<lparr>item_id = 0, item_type = type, item_name = skinname',
                          item_author = author', item_website = Some (skinWebsite fm),
                          item_files = [\<lparr>file = skinFile',
                                    desiredPath = ''repo/skins/skin.'' @ sanitizedAuthor
                                                  @ ''.'' @ sanitizedName @ ''.xzp'',
                                    maxSize = dataMaxSize (skinFile fm)\<rparr>,
                                   \<lparr>file = screenshotFile,
                                    desiredPath = ''repo/skins/skin.'' @ sanitizedAuthor
                                                  @ ''.'' @ sanitizedName @ ''.jpg'',
                                    maxSize = dataMaxSize (skinScreenshot fm)\<rparr>],
                          item_metadata = Some (currentSkinMetadata st)\<rparr> st))))))
         | _ \<Rightarrow>
             Inl (JsError (''Please provide a valid skin file, a screenshot, a website, ''
                           @ ''and ensure metadata is parsed.'')))
      else if type = ''coverflow'' then
        (case (files0 (coverflowFile fm), files0 (coverflowScreenshot fm)) of
           (Some coverflowFile', Some screenshotFile) \<Rightarrow>
             if \<not> truthy (currentCoverflowMetadata st) then
               Inr (showStatus ''Please provide a valid coverflow file and a screenshot.''
                      StatusError st)
             else
               (case getProp (currentCoverflowMetadata st) ''name'' of
                  Inl e \<Rightarrow> Inl e
                | Inr name \<Rightarrow>
               (case getProp (currentCoverflowMetadata st) ''author'' of
                  Inl e \<Rightarrow> Inl e
                | Inr author \<Rightarrow>
               (case asString name of
                  Inl e \<Rightarrow> Inl e
                | Inr name' \<Rightarrow>
               (case asString author of
                  Inl e \<Rightarrow> Inl e
                | Inr author' \<Rightarrow>
               (let sanitizedName = sanitize toLowerCase name';
                    sanitizedAuthor = sanitize toLowerCase author';
                    itemId = ''cf.'' @ sanitizedAuthor @ ''.'' @ sanitizedName
                in case someHasId (existingContentList st) itemId of
                     Inl e \<Rightarrow> Inl e
                   | Inr True \<Rightarrow> Inr (showStatus (alreadyExists itemId) StatusError st)
                   | Inr False \<Rightarrow>
                       Inr (pushItem
                         \<lparr>item_id = 0, item_type = type, item_name = name',
                          item_author = author', item_website = Some (coverflowWebsite fm),
                          item_files = [\<lparr>file = coverflowFile',
                                    desiredPath = ''repo/coverflows/cf.'' @ sanitizedAuthor
                                                  @ ''.'' @ sanitizedName @ ''.cfljson'',
                                    maxSize = dataMaxSize (coverflowFile fm)\<rparr>,
                                   \<lparr>file = screenshotFile,
                                    desiredPath = ''repo/coverflows/cf.'' @ sanitizedAuthor
                                                  @ ''.'' @ sanitizedName @ ''.jpg'',
                                    maxSize = dataMaxSize (coverflowScreenshot fm)\<rparr>],
                          item_metadata = Some (currentCoverflowMetadata st)\<rparr> st))))))
         | _ \<Rightarrow>
             Inr (showStatus ''Please provide a valid coverflow file and a screenshot.''
                    StatusError st))
      else Inr st)"

section \<open>The content list, authentication and the file inputs\<close>

text \<open>\<^verbatim>\<open>typeof v === 'object'\<close>, \<^verbatim>\<open>Array.isArray(v)\<close>, the spread \<^verbatim>\<open>...v\<close> of an
  array and \<^verbatim>\<open>key in v\<close>, on parsed values (\<open>None\<close> is \<^verbatim>\<open>undefined\<close>).\<close>

fun typeofObject :: "json \<Rightarrow> bool" where
  "typeofObject JNull = True"
| "typeofObject (JArray xs) = True"
| "typeofObject (JObject kvs) = True"
| "typeofObject v = False"

fun isArray :: "json option \<Rightarrow> bool" where
  "isArray (Some (JArray xs)) = True"
| "isArray v = False"

fun elements :: "json option \<Rightarrow> json list" where
  "elements (Some (JArray xs)) = xs"
| "elements v = []"

fun hasKey :: "json \<Rightarrow> string \<Rightarrow> bool" where
  "hasKey (JObject kvs) key = (map_of kvs key \<noteq> None)"
| "hasKey v key = False"

fun truthyOpt :: "json option \<Rightarrow> bool" where
  "truthyOpt None = False"
| "truthyOpt (Some v) = truthy v"

text \<open>
  \<^verbatim>\<open>fetchExistingContentList\<close>. The answer of \<^verbatim>\<open>octokit.repos.getContent\<close> is an
  input: \<open>Inl\<close> a rejected request, \<open>Inr None\<close> data without a string \<^verbatim>\<open>content\<close>,
  \<open>Inr (Some c)\<close> data whose \<^verbatim>\<open>content\<close> is \<open>c\<close>. \<^verbatim>\<open>atob\<close> and
  \<^verbatim>\<open>JSON.parse\<close> are parameters, \<open>None\<close> where they throw. Every exception inside
  the \<^verbatim>\<open>try\<close> reaches the \<^verbatim>\<open>catch\<close>.
\<close>

definition fetchExistingContentList ::
  "(string \<Rightarrow> string option) \<Rightarrow> (string \<Rightarrow> json option) \<Rightarrow> string + string option
     \<Rightarrow> client \<Rightarrow> client" where
  "fetchExistingContentList atob JSON_parse getContent st =
     (case getContent of
        Inl e \<Rightarrow> st\<lparr>existingContentList := []\<rparr>
      | Inr None \<Rightarrow> st
      | Inr (Some c) \<Rightarrow>
          (case atob c of
             None \<Rightarrow> st\<lparr>existingContentList := []\<rparr>
           | Some content \<Rightarrow>
               (case JSON_parse content of
                  None \<Rightarrow> st\<lparr>existingContentList := []\<rparr>
                | Some parsedContent \<Rightarrow>
                    if truthy parsedContent \<and> typeofObject parsedContent then
                      (case (getProp parsedContent ''backgrounds'',
                             getProp parsedContent ''coverflows'',
                             getProp parsedContent ''skins'') of
                         (Inr backgrounds, Inr coverflows, Inr skins) \<Rightarrow>
                           if isArray backgrounds \<and> isArray coverflows \<and> isArray skins then
                             st\<lparr>existingContentList :=
                                  elements backgrounds @ elements coverflows @ elements skins\<rparr>
                           else st\<lparr>existingContentList := []\<rparr>
                       | _ \<Rightarrow> st\<lparr>existingContentList := []\<rparr>)
                    else st\<lparr>existingContentList := []\<rparr>)))"

text \<open>The functions of the platform that the operations below use. \<open>toStr\<close> is the
  conversion of a value to a string when it becomes a message or a stored item, and
  \<open>typeErrorMessage\<close> the engine's text for a \<^verbatim>\<open>TypeError\<close>. \<^verbatim>\<open>formatFileSize\<close>
  computes in floating point and is taken as given.\<close>

record platform =
  JSON_parse :: "string \<Rightarrow> json option"
  atob :: "string \<Rightarrow> string option"
  toLowerCase :: "string \<Rightarrow> string"
  toStr :: "json option \<Rightarrow> string"
  typeErrorMessage :: string
  formatFileSize :: "int option \<Rightarrow> string"

text \<open>\<^verbatim>\<open>showUploadSection\<close> shows the upload section and fetches the content list.\<close>

definition showUploadSection :: "platform \<Rightarrow> string + string option \<Rightarrow> client \<Rightarrow> client" where
  "showUploadSection p getContent st =
     fetchExistingContentList (atob p) (JSON_parse p) getContent st"

text \<open>
  \<^verbatim>\<open>checkAuth\<close>; \<open>getAuthenticated\<close> is the answer of
  \<^verbatim>\<open>octokit.users.getAuthenticated()\<close>. \<^verbatim>\<open>window.location.reload()\<close> discards the
  variables of the script and keeps the storage.
\<close>

definition checkAuth ::
  "platform \<Rightarrow> string + unit \<Rightarrow> string + string option \<Rightarrow> client \<Rightarrow> client" where
  "checkAuth p getAuthenticated getContent st =
     (case localStorage st ''github_token'' of
        None \<Rightarrow> st
      | Some token \<Rightarrow>
          if token = [] then st
          else (case getAuthenticated of
                  Inr u \<Rightarrow> showUploadSection p getContent
                             (st\<lparr>octokit := Some (Some (JString token))\<rparr>)
                | Inl e \<Rightarrow> initial_client ((localStorage st)(''github_token'' := None))))"

text \<open>\<^verbatim>\<open>initiateGitHubLogin\<close> leaves the page for the authorization page.\<close>

definition initiateGitHubLogin :: "client \<Rightarrow> client" where
  "initiateGitHubLogin st = initial_client (localStorage st)"

text \<open>
  \<^verbatim>\<open>handleCallback\<close>. \<open>code\<close> is the \<^verbatim>\<open>code\<close> parameter of the page address. The
  answer of \<^verbatim>\<open>fetch('/api/github-callback', ...)\<close> is an input: \<open>Inl message\<close> a
  rejected request, otherwise \<^verbatim>\<open>response.ok\<close> and the outcome of
  \<^verbatim>\<open>response.json()\<close>.
\<close>

record callbackResponse =
  response_ok :: bool
  response_json :: "string + json"

definition handleCallback ::
  "platform \<Rightarrow> string option \<Rightarrow> string + callbackResponse \<Rightarrow> string + string option
     \<Rightarrow> client \<Rightarrow> client" where
  "handleCallback p code fetched getContent st =
     (if code = None \<or> code = Some [] then st
      else
        (let failed = (\<lambda>message.
               showStatus (''Error during authentication: '' @ message) StatusError st)
         in case fetched of
              Inl message \<Rightarrow> failed message
            | Inr response \<Rightarrow>
                (case response_json response of
                   Inl message \<Rightarrow> failed message
                 | Inr data \<Rightarrow>
                     (case getProp data ''error'' of
                        Inl e \<Rightarrow> failed (typeErrorMessage p)
                      | Inr err \<Rightarrow>
                          if \<not> response_ok response then
                            failed (if truthyOpt err then toStr p err
                                    else ''Failed to exchange code for token'')
                          else if truthyOpt err then
                            (case getProp data ''error_description'' of
                               Inl e \<Rightarrow> failed (typeErrorMessage p)
                             | Inr description \<Rightarrow>
                                 failed (toStr p (if truthyOpt description then description
                                                  else err)))
                          else
                            (case getProp data ''access_token'' of
                               Inl e \<Rightarrow> failed (typeErrorMessage p)
                             | Inr access_token \<Rightarrow>
                                 showStatus ''Successfully authenticated with GitHub!''
                                   StatusSuccess
                                   (showUploadSection p getContent
                                     (st\<lparr>localStorage :=
                                           (localStorage st)(''github_token'' \<mapsto>
                                              toStr p access_token),
                                         octokit := Some access_token\<rparr>)))))))"

fun parse_error_message :: "parse_error \<Rightarrow> string" where
  "parse_error_message ReadFailed = ''Failed to read skin file.''"
| "parse_error_message BlockNotFound = ''Could not find metadata block in skin file.''"
| "parse_error_message EndNotFound = ''Could not find the end of the metadata block.''"
| "parse_error_message JsonParseFailed = ''Failed to parse extracted JSON metadata.''"

text \<open>\<^verbatim>\<open>parseCoverflowMetadata\<close>; \<open>Inl\<close> carries the message of the rejection.\<close>

definition parseCoverflowMetadata ::
  "(string \<Rightarrow> json option) \<Rightarrow> string option \<Rightarrow> string + json" where
  "parseCoverflowMetadata json_parse f =
     (case f of
        None \<Rightarrow> Inl ''Failed to read coverflow file.''
      | Some text \<Rightarrow>
          (case json_parse text of
             None \<Rightarrow> Inl ''Failed to parse coverflow JSON metadata.''
           | Some metadata \<Rightarrow>
               (let info = (case getProp metadata ''info'' of Inr (Some v) \<Rightarrow> v | _ \<Rightarrow> JNull)
                in if truthy metadata \<and> typeofObject metadata \<and> hasKey metadata ''info''
                      \<and> truthy info \<and> typeofObject info \<and> hasKey info ''name''
                      \<and> hasKey info ''author'' \<and> hasKey info ''version''
                   then Inr info
                   else Inl (''Coverflow file must be a valid JSON with '' @ [CHR 0x22]
                             @ ''info'' @ [CHR 0x22] @ '' object containing '' @ [CHR 0x22]
                             @ ''name'' @ [CHR 0x22] @ '', '' @ [CHR 0x22] @ ''author''
                             @ [CHR 0x22] @ '', and '' @ [CHR 0x22] @ ''version''
                             @ [CHR 0x22] @ ''.''))))"

text \<open>
  The \<^verbatim>\<open>change\<close> listeners of the two file inputs, set up by \<^verbatim>\<open>initialize\<close>.
  \<open>chosen\<close> is \<open>None\<close> when no file is selected, else the outcome of reading the file as
  text. Filling the metadata display reads a property of the parsed value, which throws
  on \<^verbatim>\<open>null\<close>.
\<close>

definition extracted :: string where
  "extracted = ''Metadata extracted successfully! Fill remaining fields and add to queue.''"

definition skinFileChanged :: "platform \<Rightarrow> string option option \<Rightarrow> client \<Rightarrow> client" where
  "skinFileChanged p chosen st =
     (let st0 = st\<lparr>currentSkinMetadata := JNull\<rparr>
      in case chosen of
           None \<Rightarrow> st0
         | Some f \<Rightarrow>
             (case parseXzpMetadata (JSON_parse p) f of
                Inl e \<Rightarrow> showStatus (parse_error_message e) StatusError st0
              | Inr metadata \<Rightarrow>
                  (case getProp metadata ''skinname'' of
                     Inl e \<Rightarrow> showStatus (typeErrorMessage p) StatusError st0
                   | Inr v \<Rightarrow>
                       showStatus extracted StatusSuccess
                         (st0\<lparr>currentSkinMetadata := metadata\<rparr>))))"

definition coverflowFileChanged :: "platform \<Rightarrow> string option option \<Rightarrow> client \<Rightarrow> client" where
  "coverflowFileChanged p chosen st =
     (let st0 = st\<lparr>currentCoverflowMetadata := JNull\<rparr>
      in case chosen of
           None \<Rightarrow> st0
         | Some f \<Rightarrow>
             (case parseCoverflowMetadata (JSON_parse p) f of
                Inl message \<Rightarrow> showStatus message StatusError st0
              | Inr metadata \<Rightarrow>
                  (case getProp metadata ''name'' of
                     Inl e \<Rightarrow> showStatus (typeErrorMessage p) StatusError st0
                   | Inr v \<Rightarrow>
                       showStatus extracted StatusSuccess
                         (st0\<lparr>currentCoverflowMetadata := metadata\<rparr>))))"

text \<open>The \<^verbatim>\<open>click\<close> listener of the queue list on a remove button;
  \<open>idToRemove\<close> is \<^verbatim>\<open>parseInt(target.dataset.id || '-1')\<close>, \<open>None\<close> for \<^verbatim>\<open>NaN\<close>.\<close>

definition removeFromQueue :: "int option \<Rightarrow> client \<Rightarrow> client" where
  "removeFromQueue idToRemove st =
     st\<lparr>submissionQueue :=
          filter (\<lambda>item. Some (int (item_id item)) \<noteq> idToRemove) (submissionQueue st)\<rparr>"

section \<open>Creating the pull request\<close>

definition GITHUB_REPO_OWNER :: string where
  "GITHUB_REPO_OWNER = ''DanielmGM''"

definition GITHUB_REPO_NAME :: string where
  "GITHUB_REPO_NAME = ''AuroraSkins''"

text \<open>\<^verbatim>\<open>process.env.GITHUB_TARGET_BRANCH || 'main'\<close>; the argument is the environment
  variable, \<open>None\<close> when it is unset.\<close>

definition GITHUB_TARGET_BRANCH :: "string option \<Rightarrow> string" where
  "GITHUB_TARGET_BRANCH env =
     (case env of None \<Rightarrow> ''main'' | Some v \<Rightarrow> if v = [] then ''main'' else v)"

text \<open>
  The asynchronous requests of \<^verbatim>\<open>createPullRequest\<close>, with their arguments in the
  order given: five calls of the GitHub client and the reading of a queued file.
\<close>

datatype request =
    CreateFork string string
      \<comment> \<open>\<^verbatim>\<open>repos.createFork\<close>: owner, repo\<close>
  | ReposGet string string
      \<comment> \<open>\<^verbatim>\<open>repos.get\<close>: owner, repo\<close>
  | GitGetRef string string string
      \<comment> \<open>\<^verbatim>\<open>git.getRef\<close>: owner, repo, ref\<close>
  | GitCreateRef string string string string
      \<comment> \<open>\<^verbatim>\<open>git.createRef\<close>: owner, repo, ref, sha\<close>
  | ReadFileAsBase64 File
      \<comment> \<open>\<^verbatim>\<open>readFileAsBase64(file)\<close>\<close>
  | CreateOrUpdateFileContents string string string string string string
      \<comment> \<open>\<^verbatim>\<open>repos.createOrUpdateFileContents\<close>: owner, repo, path, message, content, branch\<close>
  | PullsCreate string string string string string string
      \<comment> \<open>\<^verbatim>\<open>pulls.create\<close>: owner, repo, title, body, head, base\<close>

text \<open>
  The outside world answers a request knowing the exchanges so far: \<open>Inl message\<close> is a
  rejection with an error of that message, \<open>Inr v\<close> a success, where \<open>v\<close> is the string the
  client reads from the answer (the login of the fork's owner, the default branch, the
  sha of the ref, the encoded content of the file) and is ignored for the other requests.
\<close>

type_synonym exchange = "request \<times> (string + string)"

type_synonym github = "exchange list \<Rightarrow> request \<Rightarrow> string + string"

definition perform ::
  "github \<Rightarrow> request \<Rightarrow> exchange list \<Rightarrow> (string + string) \<times> exchange list" where
  "perform api r log = (api log r, log @ [(r, api log r)])"

definition validateFileSize :: "File \<Rightarrow> int option \<Rightarrow> bool" where
  "validateFileSize f maxSize' =
     (case maxSize' of None \<Rightarrow> True | Some m \<Rightarrow> \<not> (int (file_size f) > m))"

fun join :: "string \<Rightarrow> string list \<Rightarrow> string" where
  "join sep [] = []"
| "join sep [x] = x"
| "join sep (x # y # ys) = x @ sep @ join sep (y # ys)"

text \<open>The loop \<^verbatim>\<open>for (const { file, desiredPath } of allFiles)\<close>.\<close>

fun commitFiles ::
  "github \<Rightarrow> string \<Rightarrow> string \<Rightarrow> queuedFile list \<Rightarrow> exchange list
     \<Rightarrow> (string + unit) \<times> exchange list" where
  "commitFiles api forkOwner branchName [] log = (Inr (), log)"
| "commitFiles api forkOwner branchName (qf # rest) log =
     (case perform api (ReadFileAsBase64 (file qf)) log of
        (Inl message, log1) \<Rightarrow> (Inl message, log1)
      | (Inr content, log1) \<Rightarrow>
          (case perform api
                  (CreateOrUpdateFileContents forkOwner GITHUB_REPO_NAME (desiredPath qf)
                     (''Add '' @ file_name (file qf)) content branchName) log1 of
             (Inl message, log2) \<Rightarrow> (Inl message, log2)
           | (Inr v, log2) \<Rightarrow> commitFiles api forkOwner branchName rest log2))"

text \<open>The body of the \<^verbatim>\<open>try\<close> up to the creation of the pull request.\<close>

definition submitBatch ::
  "string \<Rightarrow> github \<Rightarrow> string \<Rightarrow> string \<Rightarrow> string \<Rightarrow> queuedFile list
     \<Rightarrow> (string + unit) \<times> exchange list" where
  "submitBatch targetBranch api branchName prTitle prDescription allFiles =
     (case perform api (CreateFork GITHUB_REPO_OWNER GITHUB_REPO_NAME) [] of
        (Inl message, log1) \<Rightarrow> (Inl message, log1)
      | (Inr forkOwner, log1) \<Rightarrow>
     (case perform api (ReposGet GITHUB_REPO_OWNER GITHUB_REPO_NAME) log1 of
        (Inl message, log2) \<Rightarrow> (Inl message, log2)
      | (Inr defaultBranch, log2) \<Rightarrow>
     (case perform api (GitGetRef forkOwner GITHUB_REPO_NAME (''heads/'' @ defaultBranch)) log2 of
        (Inl message, log3) \<Rightarrow> (Inl message, log3)
      | (Inr mainBranchSha, log3) \<Rightarrow>
     (case perform api (GitCreateRef forkOwner GITHUB_REPO_NAME (''refs/heads/'' @ branchName)
                          mainBranchSha) log3 of
        (Inl message, log4) \<Rightarrow> (Inl message, log4)
      | (Inr v, log4) \<Rightarrow>
     (case commitFiles api forkOwner branchName allFiles log4 of
        (Inl message, log5) \<Rightarrow> (Inl message, log5)
      | (Inr u, log5) \<Rightarrow>
     (case perform api (PullsCreate GITHUB_REPO_OWNER GITHUB_REPO_NAME prTitle prDescription
                          (forkOwner @ '':'' @ branchName) targetBranch) log5 of
        (Inl message, log6) \<Rightarrow> (Inl message, log6)
      | (Inr v, log6) \<Rightarrow> (Inr (), log6)))))))"

text \<open>
  \<^verbatim>\<open>createPullRequest\<close>. \<open>targetEnv\<close> is the environment variable
  \<^verbatim>\<open>GITHUB_TARGET_BRANCH\<close> and \<open>now\<close> is \<^verbatim>\<open>new Date().toISOString()\<close>. The result is the
  new state with the exchanges made, in order.
\<close>

definition createPullRequest ::
  "platform \<Rightarrow> string option \<Rightarrow> string \<Rightarrow> github \<Rightarrow> client \<Rightarrow> client \<times> exchange list" where
  "createPullRequest p targetEnv now api st =
     (if submissionQueue st = [] then
        (showStatus ''Submission queue is empty. Please add files first.'' StatusError st, [])
      else
        (let allFiles = concat (map item_files (submissionQueue st))
         in case find (\<lambda>qf. \<not> validateFileSize (file qf) (maxSize qf)) allFiles of
              Some qf \<Rightarrow>
                (showStatus (''File size for '' @ file_name (file qf)
                             @ '' exceeds the maximum limit of ''
                             @ formatFileSize p (maxSize qf) @ ''.'') StatusError st, [])
            | None \<Rightarrow>
                (let timestamp = filter (\<lambda>c. c \<notin> set ''-:.'') now;
                     branchName = ''add/submission-batch-'' @ timestamp;
                     prTitle = ''Batch Submission: ''
                               @ join '', '' (map item_name (submissionQueue st));
                     prDescription =
                       ''This PR includes the following submissions:'' @ [CHR 0x0A, CHR 0x0A]
                       @ join [CHR 0x0A]
                           (map (\<lambda>item. ''*   **'' @ item_name item @ ''** by ''
                                        @ item_author item @ '' ('' @ item_type item @ '')'')
                                (submissionQueue st))
                 in case submitBatch (GITHUB_TARGET_BRANCH targetEnv) api branchName prTitle
                           prDescription allFiles of
                      (Inl message, log) \<Rightarrow>
                        (showStatus (''Error creating Pull Request: '' @ message) StatusError st,
                         log)
                    | (Inr u, log) \<Rightarrow>
                        (resetForms
                           ((showStatus ''Pull Request created successfully!'' StatusSuccess st)
                              \<lparr>submissionQueue := []\<rparr>),
                         log))))"

section \<open>The operations of the client\<close>

text \<open>
  What \<^verbatim>\<open>initialize\<close> runs and the listeners it installs, each with the inputs that
  the outside world supplies. An exception that leaves a listener leaves the variables as
  they were when it was thrown.
\<close>

datatype operation =
    CheckAuth "string + unit" "string + string option"
  | InitiateGitHubLogin
  | HandleCallback "string option" "string + callbackResponse" "string + string option"
  | SubmissionTypeChanged
  | SkinFileChanged "string option option"
  | CoverflowFileChanged "string option option"
  | AddToQueue form
  | RemoveFromQueue "int option"
  | CreatePullRequest string github

fun run :: "platform \<Rightarrow> string option \<Rightarrow> operation \<Rightarrow> client \<Rightarrow> client" where
  "run p targetEnv (CheckAuth getAuthenticated getContent) st =
     checkAuth p getAuthenticated getContent st"
| "run p targetEnv InitiateGitHubLogin st = initiateGitHubLogin st"
| "run p targetEnv (HandleCallback code fetched getContent) st =
     handleCallback p code fetched getContent st"
| "run p targetEnv SubmissionTypeChanged st = resetForms st"
| "run p targetEnv (SkinFileChanged chosen) st = skinFileChanged p chosen st"
| "run p targetEnv (CoverflowFileChanged chosen) st = coverflowFileChanged p chosen st"
| "run p targetEnv (AddToQueue fm) st =
     (case handleAddToQueue (toLowerCase p) fm st of Inl e \<Rightarrow> st | Inr st' \<Rightarrow> st')"
| "run p targetEnv (RemoveFromQueue idToRemove) st = removeFromQueue idToRemove st"
| "run p targetEnv (CreatePullRequest now api) st =
     fst (createPullRequest p targetEnv now api st)"

section \<open>The OAuth callback endpoint\<close>

text \<open>
  \<^verbatim>\<open>src/api/github-callback.js\<close>. \<open>req_body\<close> is \<^verbatim>\<open>request.body\<close>, \<open>None\<close> when the
  platform gives \<^verbatim>\<open>undefined\<close>. The answer of GitHub to the \<^verbatim>\<open>fetch\<close> is an input:
  \<open>Inl message\<close> a rejected request, otherwise \<^verbatim>\<open>ok\<close>, the status as printed in a
  message, and the outcomes of \<^verbatim>\<open>text()\<close> and \<^verbatim>\<open>json()\<close>. The handler answers with
  a status and a JSON body, or throws before answering.
\<close>

record callbackRequest =
  req_method :: string
  req_body :: "json option"

record serverEnv =
  env_GITHUB_CLIENT_ID :: "string option"
  env_GITHUB_CLIENT_SECRET :: "string option"

record githubResponse =
  gh_ok :: bool
  gh_status :: string
  gh_text :: "string + string"
  gh_json :: "string + json"

definition errorBody :: "string \<Rightarrow> json" where
  "errorBody message = JObject [(''error'', JString message)]"

definition unset :: "string option \<Rightarrow> bool" where
  "unset v = (v = None \<or> v = Some [])"

definition github_callback ::
  "platform \<Rightarrow> serverEnv \<Rightarrow> string + githubResponse \<Rightarrow> callbackRequest
     \<Rightarrow> js_error + nat \<times> json" where
  "github_callback p env fetched request =
     (if req_method request \<noteq> ''POST'' then Inr (405, errorBody ''Method Not Allowed'')
      else
        (case req_body request of
           None \<Rightarrow> Inl TypeError
         | Some body \<Rightarrow>
        (case getProp body ''code'' of
           Inl e \<Rightarrow> Inl e
         | Inr code \<Rightarrow>
             if \<not> truthyOpt code then Inr (400, errorBody ''Authorization code is missing'')
             else if unset (env_GITHUB_CLIENT_ID env) \<or> unset (env_GITHUB_CLIENT_SECRET env)
             then Inr (500, errorBody
                    ''Server configuration error: GitHub credentials not set.'')
             else
               (case fetched of
                  Inl message \<Rightarrow> Inr (500, errorBody message)
                | Inr githubResponse \<Rightarrow>
                    if \<not> gh_ok githubResponse then
                      (case gh_text githubResponse of
                         Inl message \<Rightarrow> Inr (500, errorBody message)
                       | Inr errorText \<Rightarrow>
                           Inr (500, errorBody (''Failed to exchange code for token. Status: ''
                                                @ gh_status githubResponse)))
                    else
                      (case gh_json githubResponse of
                         Inl message \<Rightarrow> Inr (500, errorBody message)
                       | Inr data \<Rightarrow>
                      (case getProp data ''error'' of
                         Inl e \<Rightarrow> Inr (500, errorBody (typeErrorMessage p))
                       | Inr err \<Rightarrow>
                           if truthyOpt err then
                             (case getProp data ''error_description'' of
                                Inl e \<Rightarrow> Inr (500, errorBody (typeErrorMessage p))
                              | Inr description \<Rightarrow>
                                  Inr (500, errorBody
                                         (toStr p (if truthyOpt description then description
                                                   else err))))
                           else
                             (case getProp data ''access_token'' of
                                Inl e \<Rightarrow> Inr (500, errorBody (typeErrorMessage p))
                              | Inr None \<Rightarrow>
                                  Inr (500, errorBody
                                         ''Access token not found in GitHub response.'')
                              | Inr (Some access_token) \<Rightarrow>
                                  if \<not> truthy access_token then
                                    Inr (500, errorBody
                                           ''Access token not found in GitHub response.'')
                                  else Inr (200, JObject
                                              [(''access_token'', access_token)]))))))))"

section \<open>Notions of the specification\<close>

text \<open>
  The extractor as the specification words it, for a given marker: the start is the first
  position at which the marker occurs; the end is the first position from there at which the number of
  opening braces read so far equals the number of closing ones; the result is the parse
  of the text between the two, both included.
\<close>

definition marker_at :: "string \<Rightarrow> string \<Rightarrow> nat \<Rightarrow> bool" where
  "marker_at marker text s = prefix marker (drop s text)"

definition brace_depth :: "string \<Rightarrow> nat \<Rightarrow> nat \<Rightarrow> int" where
  "brace_depth text s e =
     int (count_list (substring text s (e + 1)) (CHR ''{''))
     - int (count_list (substring text s (e + 1)) (CHR ''}''))"

definition parseXzpMetadata_spec ::
  "string \<Rightarrow> (string \<Rightarrow> 'j option) \<Rightarrow> string \<Rightarrow> parse_error + 'j" where
  "parseXzpMetadata_spec marker json_parse text =
     (case find (marker_at marker text) [0..<length text] of
        None \<Rightarrow> Inl BlockNotFound
      | Some s \<Rightarrow>
         (case find (\<lambda>e. brace_depth text s e = 0) [s..<length text] of
            None \<Rightarrow> Inl EndNotFound
          | Some e \<Rightarrow>
             (case json_parse (substring text s (e + 1)) of
                None \<Rightarrow> Inl JsonParseFailed
              | Some metadata \<Rightarrow> Inr metadata)))"

text \<open>
  The identity from which an add operation derives its identifier, present when the form
  is complete: the prefix of the content type with the author and the name, taken from the
  form for a background and from the parsed metadata for a skin or a coverflow.
\<close>

definition derived_identity :: "form \<Rightarrow> client \<Rightarrow> (string \<times> string \<times> string) option" where
  "derived_identity fm st =
     (if submissionType fm = ''background'' then
        (if backgroundName fm \<noteq> [] \<and> backgroundAuthor fm \<noteq> []
            \<and> files0 (backgroundImage fm) \<noteq> None
         then Some (''bg'', backgroundAuthor fm, backgroundName fm) else None)
      else if submissionType fm = ''skin'' then
        (if files0 (skinFile fm) \<noteq> None \<and> files0 (skinScreenshot fm) \<noteq> None
            \<and> skinWebsite fm \<noteq> []
         then (case currentSkinMetadata st of
                 JObject kvs \<Rightarrow>
                   (case (map_of kvs ''author'', map_of kvs ''skinname'') of
                      (Some (JString author), Some (JString skinname)) \<Rightarrow>
                        Some (''skin'', author, skinname)
                    | _ \<Rightarrow> None)
               | _ \<Rightarrow> None)
         else None)
      else if submissionType fm = ''coverflow'' then
        (if files0 (coverflowFile fm) \<noteq> None \<and> files0 (coverflowScreenshot fm) \<noteq> None
         then (case currentCoverflowMetadata st of
                 JObject kvs \<Rightarrow>
                   (case (map_of kvs ''author'', map_of kvs ''name'') of
                      (Some (JString author), Some (JString name)) \<Rightarrow>
                        Some (''cf'', author, name)
                    | _ \<Rightarrow> None)
               | _ \<Rightarrow> None)
         else None)
      else None)"

definition canonical_id :: "(string \<Rightarrow> string) \<Rightarrow> string \<times> string \<times> string \<Rightarrow> string" where
  "canonical_id lower ident =
     (case ident of (pre, author, name) \<Rightarrow>
        pre @ ''.'' @ sanitize lower author @ ''.'' @ sanitize lower name)"

definition target_paths :: "string \<Rightarrow> string \<Rightarrow> string list" where
  "target_paths pre ident =
     (if pre = ''bg'' then [''repo/backgrounds/'' @ ident @ ''.jpg'']
      else if pre = ''skin'' then
        [''repo/skins/'' @ ident @ ''.xzp'', ''repo/skins/'' @ ident @ ''.jpg'']
      else [''repo/coverflows/'' @ ident @ ''.cfljson'', ''repo/coverflows/'' @ ident @ ''.jpg''])"

definition hasId :: "json \<Rightarrow> string \<Rightarrow> bool" where
  "hasId existing ident = (getProp existing ''id'' = Inr (Some (JString ident)))"

text \<open>
  The conditions under which the content list of the repository cannot be used: the
  request fails, the content cannot be decoded or parsed, or the parsed value is not an
  object with the three arrays. An operation \<open>refetches\<close> when it may fetch the list again.
\<close>

definition has_three_arrays :: "json \<Rightarrow> bool" where
  "has_three_arrays v =
     (case v of
        JObject kvs \<Rightarrow>
          isArray (map_of kvs ''backgrounds'') \<and> isArray (map_of kvs ''coverflows'')
          \<and> isArray (map_of kvs ''skins'')
      | _ \<Rightarrow> False)"

definition content_list_unusable ::
  "(string \<Rightarrow> string option) \<Rightarrow> (string \<Rightarrow> json option) \<Rightarrow> string + string option \<Rightarrow> bool" where
  "content_list_unusable atob' parse getContent =
     (case getContent of
        Inl e \<Rightarrow> True
      | Inr None \<Rightarrow> False
      | Inr (Some c) \<Rightarrow>
          (case atob' c of
             None \<Rightarrow> True
           | Some content \<Rightarrow>
               (case parse content of
                  None \<Rightarrow> True
                | Some v \<Rightarrow> \<not> has_three_arrays v)))"

fun refetches :: "operation \<Rightarrow> bool" where
  "refetches (CheckAuth getAuthenticated getContent) = True"
| "refetches (HandleCallback code fetched getContent) = True"
| "refetches operation = False"

text \<open>
  An exchange \<open>succeeded\<close> when its answer is not a rejection. A log is \<open>answered_by\<close> the
  outside world when each answer in it is the one given to that request after the
  exchanges before it. \<open>commit_exchanges\<close> are the two exchanges that commit one queued
  file: the reading of the file and the creation of the file on the branch.
\<close>

definition succeeded :: "exchange \<Rightarrow> bool" where
  "succeeded x = (case snd x of Inl message \<Rightarrow> False | Inr v \<Rightarrow> True)"

definition sizes_ok :: "client \<Rightarrow> bool" where
  "sizes_ok st =
     list_all (\<lambda>qf. validateFileSize (file qf) (maxSize qf))
       (concat (map item_files (submissionQueue st)))"

definition answered_by :: "github \<Rightarrow> exchange list \<Rightarrow> bool" where
  "answered_by api log =
     (\<forall>i<length log. snd (log ! i) = api (take i log) (fst (log ! i)))"

definition commit_exchanges ::
  "string \<Rightarrow> string \<Rightarrow> queuedFile \<times> string \<times> string \<Rightarrow> exchange list" where
  "commit_exchanges forkOwner branchName qca =
     (case qca of (qf, content, ack) \<Rightarrow>
        [(ReadFileAsBase64 (file qf), Inr content),
         (CreateOrUpdateFileContents forkOwner GITHUB_REPO_NAME (desiredPath qf)
            (''Add '' @ file_name (file qf)) content branchName, Inr ack)])"

fun is_branch_creation :: "request \<Rightarrow> bool" where
  "is_branch_creation (GitCreateRef owner repo ref sha) = True"
| "is_branch_creation r = False"

fun is_pull_request :: "request \<Rightarrow> bool" where
  "is_pull_request (PullsCreate owner repo title body head base) = True"
| "is_pull_request r = False"

fun is_fork :: "request \<Rightarrow> bool" where
  "is_fork (CreateFork owner repo) = True"
| "is_fork r = False"

text \<open>The exchange with GitHub succeeded with a token: the response is ok, its JSON has
  no truthy \<^verbatim>\<open>error\<close>, and its \<^verbatim>\<open>access_token\<close> is the truthy value \<open>token\<close>.\<close>

definition exchange_succeeded :: "string + githubResponse \<Rightarrow> json \<Rightarrow> bool" where
  "exchange_succeeded fetched token =
     (case fetched of
        Inl message \<Rightarrow> False
      | Inr githubResponse \<Rightarrow>
          gh_ok githubResponse
          \<and> (case gh_json githubResponse of
                Inl message \<Rightarrow> False
              | Inr data \<Rightarrow>
                  (case getProp data ''error'' of
                     Inl e \<Rightarrow> False
                   | Inr err \<Rightarrow>
                       \<not> truthyOpt err
                       \<and> getProp data ''access_token'' = Inr (Some token) \<and> truthy token)))"

section \<open>Sample inputs\<close>

text \<open>A lowercasing of unaccented Latin letters, as \<^verbatim>\<open>toLowerCase\<close> does on them.\<close>

definition asciiLower :: "string \<Rightarrow> string" where
  "asciiLower s =
     map (\<lambda>c. if c \<in> set ''ABCDEFGHIJKLMNOPQRSTUVWXYZ''
              then char_of (of_char c + (32 :: nat)) else c) s"

definition sample_skin_text :: string where
  "sample_skin_text = ''XUIZ'' @ metaver_marker @ '':{}}rest}''"

definition sample_image :: File where
  "sample_image = \<lparr>file_name = ''sky.jpg'', file_size = 2048\<rparr>"

definition no_file :: fileInput where
  "no_file = \<lparr>files0 = None, dataMaxSize = Some 0\<rparr>"

definition sample_background_form :: form where
  "sample_background_form =
     \<lparr>submissionType = ''background'', backgroundName = ''Blue Sky'',
      backgroundAuthor = ''Ann'',
      backgroundImage = \<lparr>files0 = Some sample_image, dataMaxSize = Some 5242880\<rparr>,
      skinFile = no_file, skinScreenshot = no_file, skinWebsite = [],
      coverflowFile = no_file, coverflowScreenshot = no_file, coverflowWebsite = []\<rparr>"

definition sample_client :: client where
  "sample_client = initial_client Map.empty"

definition null_entry_client :: client where
  "null_entry_client = sample_client\<lparr>existingContentList := [JNull]\<rparr>"

definition sample_platform :: platform where
  "sample_platform =
     \<lparr>JSON_parse = (\<lambda>s. if s = ''null'' then Some JNull else None),
      atob = (\<lambda>s. if s = ''bnVsbA=='' then Some ''null'' else None),
      toLowerCase = asciiLower,
      toStr = (\<lambda>v. case v of Some (JString s) \<Rightarrow> s | _ \<Rightarrow> ''undefined''),
      typeErrorMessage = ''Cannot read properties of null'',
      formatFileSize = (\<lambda>m. ''5 MB'')\<rparr>"

definition sample_item :: submissionItem where
  "sample_item =
     \<lparr>item_id = 0, item_type = ''background'', item_name = ''Blue Sky'', item_author = ''Ann'',
      item_website = None,
      item_files = [\<lparr>file = sample_image,
                      desiredPath = ''repo/backgrounds/bg.ann.bluesky.jpg'',
                      maxSize = Some 5242880\<rparr>],
      item_metadata = None\<rparr>"

definition queued_client :: client where
  "queued_client = sample_client\<lparr>submissionQueue := [sample_item], nextItemId := 1\<rparr>"

definition sample_now :: string where
  "sample_now = ''2025-01-02T03:04:05.678Z''"

definition accepting_api :: github where
  "accepting_api log r =
     (case r of
        CreateFork owner repo \<Rightarrow> Inr ''ann''
      | ReposGet owner repo \<Rightarrow> Inr ''master''
      | GitGetRef owner repo ref \<Rightarrow> Inr ''c0ffee''
      | ReadFileAsBase64 f \<Rightarrow> Inr ''AAAA''
      | _ \<Rightarrow> Inr [])"

definition rejecting_api :: github where
  "rejecting_api log r = Inl ''Bad credentials''"

definition conflicting_api :: github where
  "conflicting_api log r =
     (case r of
        CreateOrUpdateFileContents owner repo path message content branch \<Rightarrow> Inl ''Conflict''
      | _ \<Rightarrow> accepting_api log r)"

definition sample_callback_response :: callbackResponse where
  "sample_callback_response =
     \<lparr>response_ok = True,
      response_json = Inr (JObject [(''access_token'', JString ''gho_16C7e42F292c6912E7'')])\<rparr>"

definition duplicate_entry_client :: client where
  "duplicate_entry_client =
     sample_client\<lparr>existingContentList :=
       [JObject [(''id'', JString ''bg.ann.bluesky''), (''name'', JString ''Blue Sky'')]]\<rparr>"

definition stored_token_client :: client where
  "stored_token_client =
     sample_client\<lparr>localStorage := [''github_token'' \<mapsto> ''gho_16C7e42F292c6912E7'']\<rparr>"

definition styled_background_form :: form where
  "styled_background_form =
     \<lparr>submissionType = ''background'', backgroundName = ''Blue_Sky #2'',
      backgroundAuthor = ''Ann-Marie'',
      backgroundImage = \<lparr>files0 = Some sample_image, dataMaxSize = Some 5242880\<rparr>,
      skinFile = no_file, skinScreenshot = no_file, skinWebsite = [],
      coverflowFile = no_file, coverflowScreenshot = no_file, coverflowWebsite = []\<rparr>"

definition sample_skin_upload :: File where
  "sample_skin_upload = \<lparr>file_name = ''neon.xzp'', file_size = 4096\<rparr>"

definition sample_skin_form :: form where
  "sample_skin_form =
     \<lparr>submissionType = ''skin'', backgroundName = [], backgroundAuthor = [],
      backgroundImage = no_file,
      skinFile = \<lparr>files0 = Some sample_skin_upload, dataMaxSize = Some 10485760\<rparr>,
      skinScreenshot = \<lparr>files0 = Some sample_image, dataMaxSize = Some 5242880\<rparr>,
      skinWebsite = ''https://example.org'',
      coverflowFile = no_file, coverflowScreenshot = no_file, coverflowWebsite = []\<rparr>"

definition skin_client :: client where
  "skin_client =
     sample_client\<lparr>currentSkinMetadata :=
       JObject [(''metaver'', JNumber 1), (''skinname'', JString ''Neon Night!''),
                (''author'', JString ''Bob_99'')]\<rparr>"

definition sample_coverflow_upload :: File where
  "sample_coverflow_upload = \<lparr>file_name = ''flow.cfljson'', file_size = 512\<rparr>"

definition sample_coverflow_form :: form where
  "sample_coverflow_form =
     \<lparr>submissionType = ''coverflow'', backgroundName = [], backgroundAuthor = [],
      backgroundImage = no_file, skinFile = no_file, skinScreenshot = no_file,
      skinWebsite = [],
      coverflowFile = \<lparr>files0 = Some sample_coverflow_upload, dataMaxSize = Some 1048576\<rparr>,
      coverflowScreenshot = \<lparr>files0 = Some sample_image, dataMaxSize = Some 5242880\<rparr>,
      coverflowWebsite = []\<rparr>"

definition coverflow_client :: client where
  "coverflow_client =
     sample_client\<lparr>currentCoverflowMetadata :=
       JObject [(''name'', JString ''Cover-Flow 2''), (''author'', JString ''C.J. Doe''),
                (''version'', JString ''1.0'')]\<rparr>"

section \<open>The extractor matches braces\<close>

lemma find_map_Suc: "find P (map f xs) = map_option f (find (P \<circ> f) xs)"
  by (induction xs) auto

lemma indexOf_find:
  "indexOf str pat = find (\<lambda>s. prefix pat (drop s str)) [0..<Suc (length str)]"
proof (induction str)
  case Nil
  then show ?case by simp
next
  case (Cons c cs)
  have "[0..<Suc (length (c # cs))] = 0 # map Suc [0..<Suc (length cs)]"
    using upt_conv_Cons[of 0 "Suc (Suc (length cs))"] by (simp add: map_Suc_upt del: upt_Suc)
  then show ?case using Cons by (simp add: find_map_Suc comp_def del: upt_Suc)
qed

lemma marker_nonempty: "metaver_marker \<noteq> []" by (simp add: metaver_marker_def)

lemma find_snoc_False: "\<not> P x \<Longrightarrow> find P (xs @ [x]) = find P xs"
  by (induction xs) auto

lemma indexOf_marker:
  assumes "marker \<noteq> []"
  shows "indexOf str marker = find (marker_at marker str) [0..<length str]"
proof -
  have "\<not> prefix marker (drop (length str) str)"
    using assms by simp
  then show ?thesis
    unfolding indexOf_find by (simp add: find_snoc_False marker_at_def[abs_def])
qed

lemma substring_step:
  assumes "i < length str" "i < e"
  shows "substring str i (Suc e) = str ! i # substring str (Suc i) (Suc e)"
proof -
  have "drop i str = str ! i # drop (Suc i) str" using assms by (simp add: Cons_nth_drop_Suc)
  moreover have "Suc e - i = Suc (Suc e - Suc i)" using assms by simp
  ultimately show ?thesis by (simp add: substring_def)
qed

lemma substring_single:
  assumes "i < length str"
  shows "substring str i (Suc i) = [str ! i]"
  using assms by (simp add: substring_def take_Suc_conv_app_nth hd_drop_conv_nth take_Suc)

lemma scanBraces_find:
  "fst (scanBraces str i ob) = find (\<lambda>e. ob + brace_depth str i e = 0) [i..<length str]"
proof (induction str i ob rule: scanBraces.induct)
  case (1 str i ob)
  show ?case
  proof (cases "i < length str")
    case False
    then show ?thesis by (simp add: scanBraces.simps[of str i ob])
  next
    case True
    define ob' where "ob' = (if str ! i = CHR ''{'' then ob + 1
                else if str ! i = CHR ''}'' then ob - 1 else ob)"
    have here: "ob + brace_depth str i i = ob'"
      using True by (simp add: brace_depth_def substring_single ob'_def)
    have later: "ob + brace_depth str i e = ob' + brace_depth str (Suc i) e" if "i < e" for e
      using True that by (simp add: brace_depth_def substring_step ob'_def)
    have upt: "[i..<length str] = i # [Suc i..<length str]"
      using True by (simp add: upt_conv_Cons)
    show ?thesis
    proof (cases "ob' = 0")
      case True
      with \<open>i < length str\<close> show ?thesis
        by (simp add: scanBraces.simps[of str i ob] upt here ob'_def[symmetric] Let_def)
    next
      case False
      have "fst (scanBraces str (i + 1) ob') = find (\<lambda>e. ob' + brace_depth str (i + 1) e = 0) [i + 1..<length str]"
        using "1.IH"[OF True ob'_def False] .
      also have "\<dots> = find (\<lambda>e. ob + brace_depth str i e = 0) [Suc i..<length str]"
        by (rule find_cong) (auto simp: later)
      finally show ?thesis using False \<open>i < length str\<close>
        by (auto simp add: scanBraces.simps[of str i ob] upt here ob'_def[symmetric] Let_def split: prod.splits)
    qed
  qed
qed

text \<open>
  C1. On the text of a file, \<^verbatim>\<open>parseXzpMetadata\<close> resolves with the parse of the text
  from the first occurrence of the marker \<^verbatim>\<open>{"metaver"\<close> to the first position at which the
  brace count is back at zero; it rejects when the marker does not occur, when the count
  never returns to zero, and when the parse of that text fails.
\<close>

theorem parseXzpMetadata_brace_matching:
  \<open>parseXzpMetadata json_parse (Some str)
   = parseXzpMetadata_spec ''{"metaver"'' json_parse str\<close>
proof -
  have m: \<open>metaver_marker = ''{"metaver"''\<close>
    by (simp add: metaver_marker_def)
  have \<open>indexOf str ''{"metaver"'' = find (marker_at ''{"metaver"'' str) [0..<length str]\<close>
    by (rule indexOf_marker) simp
  then show ?thesis
    by (simp add: parseXzpMetadata_def parseXzpMetadata_spec_def scanBraces_find m
        split: option.splits)
qed

theorem parseXzpMetadata_brace_matching_witness:
  \<open>parseXzpMetadata Some (Some ''XUIZ{"metaver":1,"n":{"a":"}"}}rest}'')
     = Inr ''{"metaver":1,"n":{"a":"}"}''
   \<and> parseXzpMetadata Some (Some ''{"metaver":1}{"metaver":2}'') = Inr ''{"metaver":1}''
   \<and> parseXzpMetadata Some (Some ''XUIZ{"METAVER":1}'') = Inl BlockNotFound
   \<and> parseXzpMetadata Some (Some ''XUIZ{ "metaver":1}'') = Inl BlockNotFound
   \<and> parseXzpMetadata Some (Some ''{"metaver":{"a":1}'') = Inl EndNotFound
   \<and> parseXzpMetadata (\<lambda>s. if s = ''{"metaver":1}'' then Some (1 :: nat) else None)
         (Some ''ab{"metaver":1}cd'') = Inr 1
   \<and> parseXzpMetadata (\<lambda>s. if s = ''{"metaver":1}'' then Some (1 :: nat) else None)
         (Some ''ab{"metaver":2}cd'') = Inl JsonParseFailed\<close>
proof -
  note t = parseXzpMetadata_brace_matching
  have \<open>parseXzpMetadata_spec ''{"metaver"'' Some ''XUIZ{"metaver":1,"n":{"a":"}"}}rest}''
        = Inr ''{"metaver":1,"n":{"a":"}"}''\<close>
    by code_simp
  then have 1: \<open>parseXzpMetadata Some (Some ''XUIZ{"metaver":1,"n":{"a":"}"}}rest}'')
     = Inr ''{"metaver":1,"n":{"a":"}"}''\<close>
    by (simp only: t)
  have \<open>parseXzpMetadata_spec ''{"metaver"'' Some ''{"metaver":1}{"metaver":2}''
        = Inr ''{"metaver":1}''\<close>
    by code_simp
  then have 2: \<open>parseXzpMetadata Some (Some ''{"metaver":1}{"metaver":2}'')
                = Inr ''{"metaver":1}''\<close>
    by (simp only: t)
  have 3: \<open>parseXzpMetadata Some (Some ''XUIZ{"METAVER":1}'') = Inl BlockNotFound\<close>
    by code_simp
  have \<open>parseXzpMetadata_spec ''{"metaver"'' Some ''XUIZ{ "metaver":1}''
        = (Inl BlockNotFound :: parse_error + string)\<close>
    by code_simp
  then have 4: \<open>parseXzpMetadata Some (Some ''XUIZ{ "metaver":1}'') = Inl BlockNotFound\<close>
    by (simp only: t)
  have \<open>parseXzpMetadata_spec ''{"metaver"'' Some ''{"metaver":{"a":1}''
        = (Inl EndNotFound :: parse_error + string)\<close>
    by code_simp
  then have 5: \<open>parseXzpMetadata Some (Some ''{"metaver":{"a":1}'') = Inl EndNotFound\<close>
    by (simp only: t)
  have \<open>parseXzpMetadata_spec ''{"metaver"''
          (\<lambda>s. if s = ''{"metaver":1}'' then Some (1 :: nat) else None) ''ab{"metaver":1}cd''
        = Inr 1\<close>
    by code_simp
  then have 6: \<open>parseXzpMetadata
          (\<lambda>s. if s = ''{"metaver":1}'' then Some (1 :: nat) else None)
          (Some ''ab{"metaver":1}cd'') = Inr 1\<close>
    by (simp only: t)
  have \<open>parseXzpMetadata_spec ''{"metaver"''
          (\<lambda>s. if s = ''{"metaver":1}'' then Some (1 :: nat) else None) ''ab{"metaver":2}cd''
        = Inl JsonParseFailed\<close>
    by code_simp
  then have 7: \<open>parseXzpMetadata
          (\<lambda>s. if s = ''{"metaver":1}'' then Some (1 :: nat) else None)
          (Some ''ab{"metaver":2}cd'') = Inl JsonParseFailed\<close>
    by (simp only: t)
  from 1 2 3 4 5 6 7 show ?thesis
    by (intro conjI)
qed

section \<open>The scan is a single bounded pass\<close>

lemma scanBraces_visited:
  "case scanBraces str i ob of
     (None, visited) \<Rightarrow> visited = [i..<length str]
   | (Some e, visited) \<Rightarrow> i \<le> e \<and> e < length str \<and> visited = [i..<Suc e]"
proof (induction str i ob rule: scanBraces.induct)
  case (1 str i ob)
  show ?case
  proof (cases "i < length str")
    case False
    then show ?thesis by (simp add: scanBraces.simps[of str i ob])
  next
    case True
    define ob' where "ob' = (if str ! i = CHR ''{'' then ob + 1
                else if str ! i = CHR ''}'' then ob - 1 else ob)"
    show ?thesis
    proof (cases "ob' = 0")
      case z: True
      with True show ?thesis
        by (simp add: scanBraces.simps[of str i ob] ob'_def[symmetric] Let_def)
    next
      case nz: False
      from "1.IH"[OF True ob'_def nz] True nz show ?thesis
        by (auto simp add: scanBraces.simps[of str i ob] ob'_def[symmetric] Let_def upt_conv_Cons
            split: prod.splits option.splits)
    qed
  qed
qed

text \<open>
  C6. From any index and counter the loop of \<^verbatim>\<open>parseXzpMetadata\<close> returns, having
  examined the positions from its start upwards in increasing order, each at most once and
  all of them inside the text, so in at most as many iterations as characters remain. It
  ends at a matched index inside the text or, having examined every remaining position,
  with no index; started at the marker with counter zero, the latter is exactly when the
  extractor rejects with the missing-end error.
\<close>

theorem scanBraces_single_pass:
  "\<exists>endIndex visited.
     scanBraces str i openBraces = (endIndex, visited)
     \<and> distinct visited \<and> sorted_wrt (<) visited
     \<and> (\<forall>j\<in>set visited. i \<le> j \<and> j < length str)
     \<and> length visited \<le> length str - i
     \<and> (case endIndex of
           None \<Rightarrow> visited = [i..<length str]
         | Some e \<Rightarrow> i \<le> e \<and> e < length str \<and> visited = [i..<Suc e])
     \<and> (indexOf str metaver_marker = Some i \<and> openBraces = 0 \<longrightarrow>
          (endIndex = None \<longleftrightarrow> parseXzpMetadata json_parse (Some str) = Inl EndNotFound))"
proof -
  obtain endIndex visited where s: "scanBraces str i openBraces = (endIndex, visited)"
    by (cases "scanBraces str i openBraces")
  have shape: "case endIndex of
           None \<Rightarrow> visited = [i..<length str]
         | Some e \<Rightarrow> i \<le> e \<and> e < length str \<and> visited = [i..<Suc e]"
    using scanBraces_visited[where str=str and i=i and ob=openBraces] s by (auto split: option.splits)
  obtain n where v: "visited = [i..<n]" and n: "n \<le> length str"
  proof (cases endIndex)
    case None
    with shape have "visited = [i..<length str]" by simp
    then show ?thesis using that by blast
  next
    case (Some e)
    with shape have "visited = [i..<Suc e]" "Suc e \<le> length str"
      by (simp_all del: upt_Suc)
    then show ?thesis using that by blast
  qed
  have "distinct visited" "sorted_wrt (<) visited" using v by simp_all
  moreover have "\<forall>j\<in>set visited. i \<le> j \<and> j < length str" using v n by auto
  moreover have "length visited \<le> length str - i" using v n by auto
  moreover have "endIndex = None \<longleftrightarrow> parseXzpMetadata json_parse (Some str) = Inl EndNotFound"
    if "indexOf str metaver_marker = Some i" "openBraces = 0"
    using that s by (auto simp: parseXzpMetadata_def split: option.splits)
  ultimately show ?thesis using s shape by blast
qed

theorem scanBraces_single_pass_witness:
  "scanBraces sample_skin_text 4 0 = (Some 17, [4, 5, 6, 7, 8, 9, 10, 11, 12, 13, 14, 15, 16, 17])
   \<and> indexOf sample_skin_text metaver_marker = Some 4
   \<and> parseXzpMetadata Some (Some sample_skin_text) \<noteq> Inl EndNotFound"
proof -
  have i: "indexOf sample_skin_text metaver_marker = Some 4"
    by code_simp
  have sc: "scanBraces sample_skin_text 4 0
            = (Some 17, [4, 5, 6, 7, 8, 9, 10, 11, 12, 13, 14, 15, 16, 17])"
    by code_simp
  from scanBraces_single_pass
         [where str = sample_skin_text and i = 4 and openBraces = 0 and json_parse = Some]
  obtain endIndex visited where
    a: "scanBraces sample_skin_text 4 0 = (endIndex, visited)" and
    b: "indexOf sample_skin_text metaver_marker = Some 4 \<and> (0 :: int) = 0 \<longrightarrow>
          (endIndex = None \<longleftrightarrow>
             parseXzpMetadata Some (Some sample_skin_text) = Inl EndNotFound)"
    by blast
  from a sc have "endIndex = Some 17" by simp
  with b i have "parseXzpMetadata Some (Some sample_skin_text) \<noteq> Inl EndNotFound"
    by simp
  with i sc show ?thesis by blast
qed

section \<open>Identifiers and the duplicate check\<close>

lemma someHasId_no_null:
  "JNull \<notin> set xs \<Longrightarrow> someHasId xs ident = Inr (\<exists>e\<in>set xs. hasId e ident)"
proof (induction xs)
  case Nil
  then show ?case by simp
next
  case (Cons e es)
  then obtain v where "getProp e ''id'' = Inr v"
    by (cases e) auto
  with Cons show ?case by (auto simp: hasId_def)
qed

lemma add_when_derived:
  assumes "derived_identity fm st = Some (pre, author, name)"
  shows "\<exists>item. item_name item = name \<and> item_author item = author
           \<and> map desiredPath (item_files item)
               = target_paths pre (canonical_id lower (pre, author, name))
           \<and> handleAddToQueue lower fm st =
             (case someHasId (existingContentList st) (canonical_id lower (pre, author, name)) of
                Inl e \<Rightarrow> Inl e
              | Inr True \<Rightarrow>
                  Inr (showStatus (alreadyExists (canonical_id lower (pre, author, name)))
                         StatusError st)
              | Inr False \<Rightarrow> Inr (pushItem item st))"
proof -
  consider (bg) "submissionType fm = ''background''" | (skin) "submissionType fm = ''skin''"
    | (cf) "submissionType fm = ''coverflow''"
    using assms by (auto simp: derived_identity_def split: if_splits)
  then show ?thesis
  proof cases
    case bg
    with assms obtain imageFile where f: "files0 (backgroundImage fm) = Some imageFile"
      and n: "backgroundName fm = name" "name \<noteq> []"
      and a: "backgroundAuthor fm = author" "author \<noteq> []" and p: "pre = ''bg''"
      by (auto simp: derived_identity_def split: if_splits)
    define item where "item =
      \<lparr>item_id = 0, item_type = ''background'', item_name = name, item_author = author,
       item_website = None,
       item_files = [\<lparr>file = imageFile,
                       desiredPath = ''repo/backgrounds/bg.'' @ sanitize lower author
                                     @ ''.'' @ sanitize lower name @ ''.jpg'',
                       maxSize = dataMaxSize (backgroundImage fm)\<rparr>],
       item_metadata = None\<rparr>"
    have "handleAddToQueue lower fm st =
             (case someHasId (existingContentList st) (canonical_id lower (pre, author, name)) of
                Inl e \<Rightarrow> Inl e
              | Inr True \<Rightarrow>
                  Inr (showStatus (alreadyExists (canonical_id lower (pre, author, name)))
                         StatusError st)
              | Inr False \<Rightarrow> Inr (pushItem item st))"
      using bg f n a p
      by (simp add: handleAddToQueue_def Let_def canonical_id_def item_def
          split: sum.splits bool.splits)
    moreover have "map desiredPath (item_files item)
               = target_paths pre (canonical_id lower (pre, author, name))"
      by (simp add: item_def target_paths_def canonical_id_def p)
    moreover have "item_name item = name" "item_author item = author"
      by (simp_all add: item_def)
    ultimately show ?thesis by blast
  next
    case skin
    with assms obtain skinFile' screenshotFile kvs where
      f: "files0 (skinFile fm) = Some skinFile'" "files0 (skinScreenshot fm) = Some screenshotFile"
      and w: "skinWebsite fm \<noteq> []" and m: "currentSkinMetadata st = JObject kvs"
      and n: "map_of kvs ''skinname'' = Some (JString name)"
      and a: "map_of kvs ''author'' = Some (JString author)" and p: "pre = ''skin''"
      by (auto simp: derived_identity_def split: if_splits json.splits option.splits)
    define item where "item =
      \<lparr>item_id = 0, item_type = ''skin'', item_name = name, item_author = author,
       item_website = Some (skinWebsite fm),
       item_files = [\<lparr>file = skinFile',
                       desiredPath = ''repo/skins/skin.'' @ sanitize lower author
                                     @ ''.'' @ sanitize lower name @ ''.xzp'',
                       maxSize = dataMaxSize (skinFile fm)\<rparr>,
                     \<lparr>file = screenshotFile,
                       desiredPath = ''repo/skins/skin.'' @ sanitize lower author
                                     @ ''.'' @ sanitize lower name @ ''.jpg'',
                       maxSize = dataMaxSize (skinScreenshot fm)\<rparr>],
       item_metadata = Some (currentSkinMetadata st)\<rparr>"
    have "handleAddToQueue lower fm st =
             (case someHasId (existingContentList st) (canonical_id lower (pre, author, name)) of
                Inl e \<Rightarrow> Inl e
              | Inr True \<Rightarrow>
                  Inr (showStatus (alreadyExists (canonical_id lower (pre, author, name)))
                         StatusError st)
              | Inr False \<Rightarrow> Inr (pushItem item st))"
      using skin f w m n a p
      by (simp add: handleAddToQueue_def Let_def canonical_id_def item_def
          split: sum.splits bool.splits)
    moreover have "map desiredPath (item_files item)
               = target_paths pre (canonical_id lower (pre, author, name))"
      by (simp add: item_def target_paths_def canonical_id_def p)
    moreover have "item_name item = name" "item_author item = author"
      by (simp_all add: item_def)
    ultimately show ?thesis by blast
  next
    case cf
    with assms obtain coverflowFile' screenshotFile kvs where
      f: "files0 (coverflowFile fm) = Some coverflowFile'"
         "files0 (coverflowScreenshot fm) = Some screenshotFile"
      and m: "currentCoverflowMetadata st = JObject kvs"
      and n: "map_of kvs ''name'' = Some (JString name)"
      and a: "map_of kvs ''author'' = Some (JString author)" and p: "pre = ''cf''"
      by (auto simp: derived_identity_def split: if_splits json.splits option.splits)
    define item where "item =
      \<lparr>item_id = 0, item_type = ''coverflow'', item_name = name, item_author = author,
       item_website = Some (coverflowWebsite fm),
       item_files = [\<lparr>file = coverflowFile',
                       desiredPath = ''repo/coverflows/cf.'' @ sanitize lower author
                                     @ ''.'' @ sanitize lower name @ ''.cfljson'',
                       maxSize = dataMaxSize (coverflowFile fm)\<rparr>,
                     \<lparr>file = screenshotFile,
                       desiredPath = ''repo/coverflows/cf.'' @ sanitize lower author
                                     @ ''.'' @ sanitize lower name @ ''.jpg'',
                       maxSize = dataMaxSize (coverflowScreenshot fm)\<rparr>],
       item_metadata = Some (currentCoverflowMetadata st)\<rparr>"
    have "handleAddToQueue lower fm st =
             (case someHasId (existingContentList st) (canonical_id lower (pre, author, name)) of
                Inl e \<Rightarrow> Inl e
              | Inr True \<Rightarrow>
                  Inr (showStatus (alreadyExists (canonical_id lower (pre, author, name)))
                         StatusError st)
              | Inr False \<Rightarrow> Inr (pushItem item st))"
      using cf f m n a p
      by (simp add: handleAddToQueue_def Let_def canonical_id_def item_def
          split: sum.splits bool.splits)
    moreover have "map desiredPath (item_files item)
               = target_paths pre (canonical_id lower (pre, author, name))"
      by (simp add: item_def target_paths_def canonical_id_def p)
    moreover have "item_name item = name" "item_author item = author"
      by (simp_all add: item_def)
    ultimately show ?thesis by blast
  qed
qed

lemma push_queue: "submissionQueue (pushItem item st) = submissionQueue st @ [item\<lparr>item_id := nextItemId st\<rparr>]"
  by (simp add: pushItem_def showStatus_def resetForms_def)

lemma add_not_derived:
  assumes "derived_identity fm st = None" "handleAddToQueue lower fm st = Inr st'"
  shows "submissionQueue st' = submissionQueue st"
  using assms
  by (auto simp: derived_identity_def handleAddToQueue_def Let_def showStatus_def
      split: if_splits option.splits json.splits sum.splits prod.splits bool.splits)

lemma someHasId_False:
  "someHasId xs ident = Inr False \<longleftrightarrow> (\<forall>e\<in>set xs. e \<noteq> JNull \<and> \<not> hasId e ident)"
proof (induction xs)
  case Nil
  then show ?case by simp
next
  case (Cons e es)
  then show ?case by (cases e) (auto simp: hasId_def)
qed

lemma someHasId_match_not_False:
  "\<exists>e\<in>set xs. hasId e ident \<Longrightarrow> someHasId xs ident \<noteq> Inr False"
  by (auto simp: someHasId_False)

lemma sample_identity:
  "derived_identity sample_background_form sample_client = Some (''bg'', ''Ann'', ''Blue Sky'')"
  by (simp add: derived_identity_def sample_background_form_def)

lemma sample_canonical_id:
  "canonical_id asciiLower (''bg'', ''Ann'', ''Blue Sky'') = ''bg.ann.bluesky''"
  by code_simp

lemma metadata_provenance:
  "currentSkinMetadata (skinFileChanged p chosen st) = JNull
   \<or> (\<exists>f. chosen = Some f
          \<and> parseXzpMetadata (JSON_parse p) f
              = Inr (currentSkinMetadata (skinFileChanged p chosen st)))"
  "currentCoverflowMetadata (coverflowFileChanged p chosen st) = JNull
   \<or> (\<exists>f. chosen = Some f
          \<and> parseCoverflowMetadata (JSON_parse p) f
              = Inr (currentCoverflowMetadata (coverflowFileChanged p chosen st)))"
  by (auto simp: skinFileChanged_def coverflowFileChanged_def Let_def showStatus_def
      split: option.splits sum.splits)

lemma char_eq_code: "c = d \<longleftrightarrow> (of_char c :: nat) = of_char d"
  by (simp add: of_char_eq_iff)

lemma kept_character:
  "c \<in> set (''abcdefghijklmnopqrstuvwxyz'' @ ''0123456789'')
   \<longleftrightarrow> (CHR ''a'' \<le> c \<and> c \<le> CHR ''z'' \<or> CHR ''0'' \<le> c \<and> c \<le> CHR ''9'')"
proof -
  define n where "n = (of_char c :: nat)"
  have "c \<in> set (''abcdefghijklmnopqrstuvwxyz'' @ ''0123456789'')
        \<longleftrightarrow> n \<in> {97..122} \<union> {48..57}"
    unfolding n_def by (simp add: char_eq_code) arith
  also have "\<dots> \<longleftrightarrow> (CHR ''a'' \<le> c \<and> c \<le> CHR ''z'' \<or> CHR ''0'' \<le> c \<and> c \<le> CHR ''9'')"
    unfolding n_def by (simp add: less_eq_char_def)
  finally show ?thesis .
qed

lemma add_of_derived_sample:
  assumes "derived_identity fm st = Some ident" and "existingContentList st = []"
  shows "\<exists>st'. handleAddToQueue lower fm st = Inr st'
           \<and> submissionQueue st' \<noteq> submissionQueue st"
proof -
  obtain pre author name where i: "ident = (pre, author, name)"
    by (cases ident) auto
  from add_when_derived[OF assms(1)[unfolded i], of lower] assms(2)
  obtain item where "handleAddToQueue lower fm st = Inr (pushItem item st)"
    by auto
  then show ?thesis by (simp add: push_queue)
qed

text \<open>
  C2. Whenever \<^verbatim>\<open>handleAddToQueue\<close> adds a submission, the identifier it derived is
  \<open>prefix.sanitizedAuthor.sanitizedName\<close>, where the prefix is \<open>bg\<close>, \<open>skin\<close> or \<open>cf\<close>
  by content type, a string is sanitized by lowercasing it and then keeping exactly its
  characters from \<open>a\<close> to \<open>z\<close> and from \<open>0\<close> to \<open>9\<close>, and the author and the name are the form
  fields for a background and the string properties \<^verbatim>\<open>author\<close> and \<^verbatim>\<open>skinname\<close> (skin) or
  \<^verbatim>\<open>name\<close> (coverflow) of the parsed metadata (by \<open>metadata_provenance\<close> the current
  metadata is the result of parsing the chosen file). It is this identifier that was
  checked against the content list, and the paths of the queued files are built from it.
\<close>

theorem added_submission_identifier:
  assumes "handleAddToQueue lower fm st = Inr st'"
    and "submissionQueue st' \<noteq> submissionQueue st"
  shows "\<exists>pre author name item.
           derived_identity fm st = Some (pre, author, name)
           \<and> (submissionType fm = ''background'' \<and> pre = ''bg''
                \<and> author = backgroundAuthor fm \<and> name = backgroundName fm
              \<or> submissionType fm = ''skin'' \<and> pre = ''skin''
                \<and> getProp (currentSkinMetadata st) ''author'' = Inr (Some (JString author))
                \<and> getProp (currentSkinMetadata st) ''skinname'' = Inr (Some (JString name))
              \<or> submissionType fm = ''coverflow'' \<and> pre = ''cf''
                \<and> getProp (currentCoverflowMetadata st) ''author'' = Inr (Some (JString author))
                \<and> getProp (currentCoverflowMetadata st) ''name'' = Inr (Some (JString name)))
           \<and> canonical_id lower (pre, author, name)
               = pre @ ''.''
                 @ filter (\<lambda>c. CHR ''a'' \<le> c \<and> c \<le> CHR ''z'' \<or> CHR ''0'' \<le> c \<and> c \<le> CHR ''9'')
                     (lower author)
                 @ ''.''
                 @ filter (\<lambda>c. CHR ''a'' \<le> c \<and> c \<le> CHR ''z'' \<or> CHR ''0'' \<le> c \<and> c \<le> CHR ''9'')
                     (lower name)
           \<and> canonical_id lower (pre, author, name)
               = pre @ ''.'' @ sanitize lower author @ ''.'' @ sanitize lower name
           \<and> someHasId (existingContentList st) (canonical_id lower (pre, author, name))
               = Inr False
           \<and> submissionQueue st' = submissionQueue st @ [item]
           \<and> item_name item = name \<and> item_author item = author
           \<and> map desiredPath (item_files item)
               = target_paths pre (canonical_id lower (pre, author, name))"
proof -
  from assms obtain pre author name where d: "derived_identity fm st = Some (pre, author, name)"
    using add_not_derived[of fm st lower st'] by (cases "derived_identity fm st") auto
  from add_when_derived[OF d, of lower] obtain item where
    i: "item_name item = name" "item_author item = author"
       "map desiredPath (item_files item)
          = target_paths pre (canonical_id lower (pre, author, name))" and
    h: "handleAddToQueue lower fm st =
          (case someHasId (existingContentList st) (canonical_id lower (pre, author, name)) of
             Inl e \<Rightarrow> Inl e
           | Inr True \<Rightarrow>
               Inr (showStatus (alreadyExists (canonical_id lower (pre, author, name)))
                      StatusError st)
           | Inr False \<Rightarrow> Inr (pushItem item st))"
    by blast
  from h assms have f: "someHasId (existingContentList st) (canonical_id lower (pre, author, name))
                        = Inr False"
    and s: "st' = pushItem item st"
    by (auto simp: showStatus_def split: sum.splits bool.splits)
  have kind: "submissionType fm = ''background'' \<and> pre = ''bg''
                \<and> author = backgroundAuthor fm \<and> name = backgroundName fm
              \<or> submissionType fm = ''skin'' \<and> pre = ''skin''
                \<and> getProp (currentSkinMetadata st) ''author'' = Inr (Some (JString author))
                \<and> getProp (currentSkinMetadata st) ''skinname'' = Inr (Some (JString name))
              \<or> submissionType fm = ''coverflow'' \<and> pre = ''cf''
                \<and> getProp (currentCoverflowMetadata st) ''author'' = Inr (Some (JString author))
                \<and> getProp (currentCoverflowMetadata st) ''name'' = Inr (Some (JString name))"
    using d by (auto simp: derived_identity_def split: if_splits json.splits option.splits)
  have c: "canonical_id lower (pre, author, name)
               = pre @ ''.'' @ sanitize lower author @ ''.'' @ sanitize lower name"
    by (simp add: canonical_id_def)
  have c': "canonical_id lower (pre, author, name)
               = pre @ ''.''
                 @ filter (\<lambda>c. CHR ''a'' \<le> c \<and> c \<le> CHR ''z'' \<or> CHR ''0'' \<le> c \<and> c \<le> CHR ''9'')
                     (lower author)
                 @ ''.''
                 @ filter (\<lambda>c. CHR ''a'' \<le> c \<and> c \<le> CHR ''z'' \<or> CHR ''0'' \<le> c \<and> c \<le> CHR ''9'')
                     (lower name)"
    unfolding c sanitize_def kept_character ..
  let ?item = "item\<lparr>item_id := nextItemId st\<rparr>"
  have "submissionQueue st' = submissionQueue st @ [?item]"
    "item_name ?item = name" "item_author ?item = author"
    "map desiredPath (item_files ?item)
       = target_paths pre (canonical_id lower (pre, author, name))"
    using s i by (simp_all add: push_queue)
  with d kind c c' f show ?thesis by blast
qed

theorem added_submission_identifier_witness:
  "(\<exists>st' item. handleAddToQueue asciiLower styled_background_form sample_client = Inr st'
       \<and> submissionQueue st' = [item]
       \<and> item_name item = ''Blue_Sky #2'' \<and> item_author item = ''Ann-Marie''
       \<and> map desiredPath (item_files item) = [''repo/backgrounds/bg.annmarie.bluesky2.jpg''])
   \<and> (\<exists>st' item. handleAddToQueue asciiLower sample_skin_form skin_client = Inr st'
       \<and> submissionQueue st' = [item]
       \<and> item_name item = ''Neon Night!'' \<and> item_author item = ''Bob_99''
       \<and> map desiredPath (item_files item)
           = [''repo/skins/skin.bob99.neonnight.xzp'', ''repo/skins/skin.bob99.neonnight.jpg''])
   \<and> (\<exists>st' item. handleAddToQueue asciiLower sample_coverflow_form coverflow_client = Inr st'
       \<and> submissionQueue st' = [item]
       \<and> item_name item = ''Cover-Flow 2'' \<and> item_author item = ''C.J. Doe''
       \<and> map desiredPath (item_files item)
           = [''repo/coverflows/cf.cjdoe.coverflow2.cfljson'',
              ''repo/coverflows/cf.cjdoe.coverflow2.jpg''])"
proof -
  have background:
    "\<exists>st' item. handleAddToQueue asciiLower styled_background_form sample_client = Inr st'
       \<and> submissionQueue st' = [item]
       \<and> item_name item = ''Blue_Sky #2'' \<and> item_author item = ''Ann-Marie''
       \<and> map desiredPath (item_files item) = [''repo/backgrounds/bg.annmarie.bluesky2.jpg'']"
  proof -
    have d: "derived_identity styled_background_form sample_client
             = Some (''bg'', ''Ann-Marie'', ''Blue_Sky #2'')"
      by (simp add: derived_identity_def styled_background_form_def)
    have e: "existingContentList sample_client = []" "submissionQueue sample_client = []"
      by (simp_all add: sample_client_def initial_client_def)
    have c: "canonical_id asciiLower (''bg'', ''Ann-Marie'', ''Blue_Sky #2'')
             = ''bg.annmarie.bluesky2''"
      by code_simp
    from add_of_derived_sample[OF d e(1), of asciiLower] obtain st' where
      h: "handleAddToQueue asciiLower styled_background_form sample_client = Inr st'"
      and q: "submissionQueue st' \<noteq> submissionQueue sample_client"
      by blast
    from added_submission_identifier[OF h q] d c e(2)
    obtain item where "submissionQueue st' = [item]"
      "item_name item = ''Blue_Sky #2''" "item_author item = ''Ann-Marie''"
      "map desiredPath (item_files item) = target_paths ''bg'' ''bg.annmarie.bluesky2''"
      by auto
    with h show ?thesis by (auto simp: target_paths_def)
  qed
  have skin:
    "\<exists>st' item. handleAddToQueue asciiLower sample_skin_form skin_client = Inr st'
       \<and> submissionQueue st' = [item]
       \<and> item_name item = ''Neon Night!'' \<and> item_author item = ''Bob_99''
       \<and> map desiredPath (item_files item)
           = [''repo/skins/skin.bob99.neonnight.xzp'', ''repo/skins/skin.bob99.neonnight.jpg'']"
  proof -
    have d: "derived_identity sample_skin_form skin_client
             = Some (''skin'', ''Bob_99'', ''Neon Night!'')"
      by (simp add: derived_identity_def sample_skin_form_def skin_client_def)
    have e: "existingContentList skin_client = []" "submissionQueue skin_client = []"
      by (simp_all add: skin_client_def sample_client_def initial_client_def)
    have c: "canonical_id asciiLower (''skin'', ''Bob_99'', ''Neon Night!'')
             = ''skin.bob99.neonnight''"
      by code_simp
    from add_of_derived_sample[OF d e(1), of asciiLower] obtain st' where
      h: "handleAddToQueue asciiLower sample_skin_form skin_client = Inr st'"
      and q: "submissionQueue st' \<noteq> submissionQueue skin_client"
      by blast
    from added_submission_identifier[OF h q] d c e(2)
    obtain item where "submissionQueue st' = [item]"
      "item_name item = ''Neon Night!''" "item_author item = ''Bob_99''"
      "map desiredPath (item_files item) = target_paths ''skin'' ''skin.bob99.neonnight''"
      by auto
    with h show ?thesis by (auto simp: target_paths_def)
  qed
  have coverflow:
    "\<exists>st' item. handleAddToQueue asciiLower sample_coverflow_form coverflow_client = Inr st'
       \<and> submissionQueue st' = [item]
       \<and> item_name item = ''Cover-Flow 2'' \<and> item_author item = ''C.J. Doe''
       \<and> map desiredPath (item_files item)
           = [''repo/coverflows/cf.cjdoe.coverflow2.cfljson'',
              ''repo/coverflows/cf.cjdoe.coverflow2.jpg'']"
  proof -
    have d: "derived_identity sample_coverflow_form coverflow_client
             = Some (''cf'', ''C.J. Doe'', ''Cover-Flow 2'')"
      by (simp add: derived_identity_def sample_coverflow_form_def coverflow_client_def)
    have e: "existingContentList coverflow_client = []" "submissionQueue coverflow_client = []"
      by (simp_all add: coverflow_client_def sample_client_def initial_client_def)
    have c: "canonical_id asciiLower (''cf'', ''C.J. Doe'', ''Cover-Flow 2'')
             = ''cf.cjdoe.coverflow2''"
      by code_simp
    from add_of_derived_sample[OF d e(1), of asciiLower] obtain st' where
      h: "handleAddToQueue asciiLower sample_coverflow_form coverflow_client = Inr st'"
      and q: "submissionQueue st' \<noteq> submissionQueue coverflow_client"
      by blast
    from added_submission_identifier[OF h q] d c e(2)
    obtain item where "submissionQueue st' = [item]"
      "item_name item = ''Cover-Flow 2''" "item_author item = ''C.J. Doe''"
      "map desiredPath (item_files item) = target_paths ''cf'' ''cf.cjdoe.coverflow2''"
      by auto
    with h show ?thesis by (auto simp: target_paths_def)
  qed
  from background skin coverflow show ?thesis
    by (intro conjI)
qed

text \<open>
  C3, as amended. For an add operation that derives an identifier: if an entry of the
  content list has that identifier, the queue is never modified; and when no entry of the
  list is \<^verbatim>\<open>null\<close>, the operation reports the duplicate as an error and leaves the queue
  as it was if some entry has the identifier, and appends the item otherwise.
\<close>

theorem duplicate_check_gates_append:
  assumes "derived_identity fm st = Some ident"
  shows "((\<exists>existing\<in>set (existingContentList st). hasId existing (canonical_id lower ident))
            \<longrightarrow> (\<forall>st'. handleAddToQueue lower fm st = Inr st'
                    \<longrightarrow> submissionQueue st' = submissionQueue st))
         \<and> (JNull \<notin> set (existingContentList st) \<longrightarrow>
              (if \<exists>existing\<in>set (existingContentList st).
                     hasId existing (canonical_id lower ident)
               then \<exists>st'. handleAddToQueue lower fm st = Inr st'
                      \<and> submissionQueue st' = submissionQueue st
                      \<and> status st' = Some (alreadyExists (canonical_id lower ident), StatusError)
               else \<exists>st' item. handleAddToQueue lower fm st = Inr st'
                      \<and> submissionQueue st' = submissionQueue st @ [item]
                      \<and> map desiredPath (item_files item)
                          = target_paths (fst ident) (canonical_id lower ident)))"
proof -
  obtain pre author name where ident: "ident = (pre, author, name)"
    by (cases ident) auto
  from add_when_derived[OF assms[unfolded ident], of lower] obtain item where
    i: "map desiredPath (item_files item) = target_paths pre (canonical_id lower ident)" and
    h: "handleAddToQueue lower fm st =
          (case someHasId (existingContentList st) (canonical_id lower ident) of
             Inl e \<Rightarrow> Inl e
           | Inr True \<Rightarrow>
               Inr (showStatus (alreadyExists (canonical_id lower ident)) StatusError st)
           | Inr False \<Rightarrow> Inr (pushItem item st))"
    unfolding ident by blast
  have first: "submissionQueue st' = submissionQueue st"
    if "\<exists>existing\<in>set (existingContentList st). hasId existing (canonical_id lower ident)"
      and "handleAddToQueue lower fm st = Inr st'" for st'
    using someHasId_match_not_False[OF that(1)] that(2) h
    by (auto simp: showStatus_def split: sum.splits bool.splits)
  have second: "if \<exists>existing\<in>set (existingContentList st).
                     hasId existing (canonical_id lower ident)
               then \<exists>st'. handleAddToQueue lower fm st = Inr st'
                      \<and> submissionQueue st' = submissionQueue st
                      \<and> status st' = Some (alreadyExists (canonical_id lower ident), StatusError)
               else \<exists>st' item. handleAddToQueue lower fm st = Inr st'
                      \<and> submissionQueue st' = submissionQueue st @ [item]
                      \<and> map desiredPath (item_files item)
                          = target_paths (fst ident) (canonical_id lower ident)"
    if "JNull \<notin> set (existingContentList st)"
  proof (cases "\<exists>existing\<in>set (existingContentList st). hasId existing (canonical_id lower ident)")
    case True
    with h someHasId_no_null[OF that, of "canonical_id lower ident"] show ?thesis
      by (simp add: showStatus_def)
  next
    case False
    let ?item = "item\<lparr>item_id := nextItemId st\<rparr>"
    have "handleAddToQueue lower fm st = Inr (pushItem item st)"
      using False h someHasId_no_null[OF that, of "canonical_id lower ident"] by simp
    moreover have "submissionQueue (pushItem item st) = submissionQueue st @ [?item]"
      by (rule push_queue)
    moreover have "map desiredPath (item_files ?item)
                   = target_paths (fst ident) (canonical_id lower ident)"
      using i ident by simp
    ultimately show ?thesis using False by auto
  qed
  from first second show ?thesis by blast
qed

theorem duplicate_check_gates_append_witness:
  "derived_identity sample_background_form sample_client = Some (''bg'', ''Ann'', ''Blue Sky'')
   \<and> JNull \<notin> set (existingContentList sample_client)
   \<and> (\<exists>st' item. handleAddToQueue asciiLower sample_background_form sample_client = Inr st'
         \<and> submissionQueue st' = submissionQueue sample_client @ [item]
         \<and> map desiredPath (item_files item) = [''repo/backgrounds/bg.ann.bluesky.jpg''])
   \<and> derived_identity sample_background_form duplicate_entry_client
       = Some (''bg'', ''Ann'', ''Blue Sky'')
   \<and> JNull \<notin> set (existingContentList duplicate_entry_client)
   \<and> (\<exists>st'. handleAddToQueue asciiLower sample_background_form duplicate_entry_client = Inr st'
         \<and> submissionQueue st' = submissionQueue duplicate_entry_client
         \<and> status st' = Some (alreadyExists ''bg.ann.bluesky'', StatusError))"
proof -
  have n: "JNull \<notin> set (existingContentList sample_client)"
    and e: "\<not> (\<exists>existing\<in>set (existingContentList sample_client).
                hasId existing (canonical_id asciiLower (''bg'', ''Ann'', ''Blue Sky'')))"
    by (simp_all add: sample_client_def initial_client_def)
  from duplicate_check_gates_append[OF sample_identity, of asciiLower] n e
  have "\<exists>st' item. handleAddToQueue asciiLower sample_background_form sample_client = Inr st'
          \<and> submissionQueue st' = submissionQueue sample_client @ [item]
          \<and> map desiredPath (item_files item)
              = target_paths (fst (''bg'', ''Ann'', ''Blue Sky''))
                  (canonical_id asciiLower (''bg'', ''Ann'', ''Blue Sky''))"
    by simp
  then have appended:
    "\<exists>st' item. handleAddToQueue asciiLower sample_background_form sample_client = Inr st'
         \<and> submissionQueue st' = submissionQueue sample_client @ [item]
         \<and> map desiredPath (item_files item) = [''repo/backgrounds/bg.ann.bluesky.jpg'']"
    by (simp add: sample_canonical_id target_paths_def)
  have d: "derived_identity sample_background_form duplicate_entry_client
           = Some (''bg'', ''Ann'', ''Blue Sky'')"
    by (simp add: derived_identity_def sample_background_form_def)
  have n': "JNull \<notin> set (existingContentList duplicate_entry_client)"
    and e': "\<exists>existing\<in>set (existingContentList duplicate_entry_client).
                hasId existing (canonical_id asciiLower (''bg'', ''Ann'', ''Blue Sky''))"
    by (simp_all add: duplicate_entry_client_def sample_canonical_id hasId_def)
  from duplicate_check_gates_append[OF d, of asciiLower] n' e'
  have "\<exists>st'. handleAddToQueue asciiLower sample_background_form duplicate_entry_client = Inr st'
         \<and> submissionQueue st' = submissionQueue duplicate_entry_client
         \<and> status st'
            = Some (alreadyExists (canonical_id asciiLower (''bg'', ''Ann'', ''Blue Sky'')),
                    StatusError)"
    by simp
  then have refused:
    "\<exists>st'. handleAddToQueue asciiLower sample_background_form duplicate_entry_client = Inr st'
         \<and> submissionQueue st' = submissionQueue duplicate_entry_client
         \<and> status st' = Some (alreadyExists ''bg.ann.bluesky'', StatusError)"
    by (simp add: sample_canonical_id)
  from sample_identity n appended d n' refused show ?thesis
    by (intro conjI)
qed

text \<open>
  C3 as stated fails on a content list with a \<^verbatim>\<open>null\<close> entry: no entry has the derived
  identifier, yet the item is not appended, because reading \<^verbatim>\<open>existing.id\<close> throws.
\<close>

theorem duplicate_check_null_entry_counterexample:
  "derived_identity sample_background_form null_entry_client = Some (''bg'', ''Ann'', ''Blue Sky'')
   \<and> existingContentList null_entry_client = [JNull]
   \<and> \<not> hasId JNull (canonical_id asciiLower (''bg'', ''Ann'', ''Blue Sky''))
   \<and> handleAddToQueue asciiLower sample_background_form null_entry_client = Inl TypeError"
  by (simp add: derived_identity_def sample_background_form_def null_entry_client_def
      sample_client_def initial_client_def hasId_def handleAddToQueue_def Let_def)

text \<open>
  C9. The duplicate check looks at the content list only. An add operation whose
  identifier no entry of the list has succeeds, and so does every later add operation that
  derives the same identifier while the list is the same: the queue then holds both items,
  and their files have the same target paths.
\<close>

theorem same_identifier_queued_twice:
  assumes "derived_identity fm1 st = Some ident"
    and "\<forall>existing\<in>set (existingContentList st).
           existing \<noteq> JNull \<and> \<not> hasId existing (canonical_id lower ident)"
  shows "\<exists>st1 item1.
           handleAddToQueue lower fm1 st = Inr st1
           \<and> submissionQueue st1 = submissionQueue st @ [item1]
           \<and> map desiredPath (item_files item1)
               = target_paths (fst ident) (canonical_id lower ident)
           \<and> (\<forall>fm2 st2.
                 existingContentList st2 = existingContentList st
                 \<and> submissionQueue st2 = submissionQueue st1
                 \<and> derived_identity fm2 st2 = Some ident
                 \<longrightarrow> (\<exists>st3 item2.
                        handleAddToQueue lower fm2 st2 = Inr st3
                        \<and> submissionQueue st3 = submissionQueue st @ [item1, item2]
                        \<and> item_files item1 \<noteq> [] 
                        \<and> map desiredPath (item_files item1)
                            = map desiredPath (item_files item2)))"
proof -
  have nonempty: "target_paths pre i \<noteq> []" for pre i
    by (simp add: target_paths_def)
  have step: "\<exists>st' item. handleAddToQueue lower fm st0 = Inr st'
                \<and> submissionQueue st' = submissionQueue st0 @ [item]
                \<and> map desiredPath (item_files item)
                    = target_paths (fst ident) (canonical_id lower ident)"
    if "derived_identity fm st0 = Some ident"
      and "existingContentList st0 = existingContentList st" for fm st0
  proof -
    have n: "JNull \<notin> set (existingContentList st0)"
      and e: "\<not> (\<exists>existing\<in>set (existingContentList st0).
                   hasId existing (canonical_id lower ident))"
      using assms(2) that(2) by auto
    obtain pre author name where ident: "ident = (pre, author, name)"
      by (cases ident) auto
    from add_when_derived[OF that(1)[unfolded ident], of lower] obtain item where
      i: "map desiredPath (item_files item) = target_paths pre (canonical_id lower ident)" and
      h: "handleAddToQueue lower fm st0 =
          (case someHasId (existingContentList st0) (canonical_id lower ident) of
             Inl e \<Rightarrow> Inl e
           | Inr True \<Rightarrow>
               Inr (showStatus (alreadyExists (canonical_id lower ident)) StatusError st0)
           | Inr False \<Rightarrow> Inr (pushItem item st0))"
      unfolding ident by blast
    let ?item = "item\<lparr>item_id := nextItemId st0\<rparr>"
    have "handleAddToQueue lower fm st0 = Inr (pushItem item st0)"
      using e h someHasId_no_null[OF n, of "canonical_id lower ident"] by simp
    moreover have "submissionQueue (pushItem item st0) = submissionQueue st0 @ [?item]"
      by (rule push_queue)
    moreover have "map desiredPath (item_files ?item)
                   = target_paths (fst ident) (canonical_id lower ident)"
      using i ident by simp
    ultimately show ?thesis by blast
  qed
  from step[OF assms(1) refl] obtain st1 item1 where
    1: "handleAddToQueue lower fm1 st = Inr st1"
       "submissionQueue st1 = submissionQueue st @ [item1]"
       "map desiredPath (item_files item1) = target_paths (fst ident) (canonical_id lower ident)"
    by blast
  have ne: "item_files item1 \<noteq> []"
    using 1(3) nonempty[of "fst ident" "canonical_id lower ident"] by auto
  have "\<exists>st3 item2.
          handleAddToQueue lower fm2 st2 = Inr st3
          \<and> submissionQueue st3 = submissionQueue st @ [item1, item2]
          \<and> item_files item1 \<noteq> []
          \<and> map desiredPath (item_files item1) = map desiredPath (item_files item2)"
    if "existingContentList st2 = existingContentList st
        \<and> submissionQueue st2 = submissionQueue st1
        \<and> derived_identity fm2 st2 = Some ident" for fm2 st2
  proof -
    from step[of fm2 st2] that obtain st3 item2 where
      "handleAddToQueue lower fm2 st2 = Inr st3"
      "submissionQueue st3 = submissionQueue st2 @ [item2]"
      "map desiredPath (item_files item2) = target_paths (fst ident) (canonical_id lower ident)"
      by blast
    with that 1 ne show ?thesis by auto
  qed
  with 1 show ?thesis by blast
qed

lemma add_keeps_manifest:
  "handleAddToQueue lower fm st = Inr st' \<Longrightarrow> existingContentList st' = existingContentList st"
  by (auto simp: handleAddToQueue_def Let_def showStatus_def pushItem_def resetForms_def
      split: if_splits option.splits sum.splits prod.splits bool.splits)

theorem same_identifier_queued_twice_witness:
  "\<exists>st1 st2 item1 item2.
     handleAddToQueue asciiLower sample_background_form sample_client = Inr st1
     \<and> handleAddToQueue asciiLower sample_background_form st1 = Inr st2
     \<and> submissionQueue st2 = [item1, item2]
     \<and> map desiredPath (item_files item1) = [''repo/backgrounds/bg.ann.bluesky.jpg'']
     \<and> map desiredPath (item_files item2) = [''repo/backgrounds/bg.ann.bluesky.jpg'']"
proof -
  have m: "\<forall>existing\<in>set (existingContentList sample_client).
             existing \<noteq> JNull
             \<and> \<not> hasId existing (canonical_id asciiLower (''bg'', ''Ann'', ''Blue Sky''))"
    by (simp add: sample_client_def initial_client_def)
  from same_identifier_queued_twice[OF sample_identity m] obtain st1 item1 where
    1: "handleAddToQueue asciiLower sample_background_form sample_client = Inr st1"
       "submissionQueue st1 = submissionQueue sample_client @ [item1]"
       "map desiredPath (item_files item1)
          = target_paths (fst (''bg'', ''Ann'', ''Blue Sky''))
              (canonical_id asciiLower (''bg'', ''Ann'', ''Blue Sky''))" and
    2: "\<forall>fm2 st2. existingContentList st2 = existingContentList sample_client
                 \<and> submissionQueue st2 = submissionQueue st1
                 \<and> derived_identity fm2 st2 = Some (''bg'', ''Ann'', ''Blue Sky'')
                 \<longrightarrow> (\<exists>st3 item2.
                        handleAddToQueue asciiLower fm2 st2 = Inr st3
                        \<and> submissionQueue st3 = submissionQueue sample_client @ [item1, item2]
                        \<and> item_files item1 \<noteq> []
                        \<and> map desiredPath (item_files item1)
                            = map desiredPath (item_files item2))"
    by blast
  have p1: "map desiredPath (item_files item1) = [''repo/backgrounds/bg.ann.bluesky.jpg'']"
    using 1(3) by (simp add: sample_canonical_id target_paths_def)
  have "existingContentList st1 = existingContentList sample_client"
    using 1(1) by (rule add_keeps_manifest)
  moreover have "derived_identity sample_background_form st1 = Some (''bg'', ''Ann'', ''Blue Sky'')"
    by (simp add: derived_identity_def sample_background_form_def)
  ultimately obtain st3 item2 where
    3: "handleAddToQueue asciiLower sample_background_form st1 = Inr st3"
       "submissionQueue st3 = submissionQueue sample_client @ [item1, item2]"
       "map desiredPath (item_files item1) = map desiredPath (item_files item2)"
    using 2 by blast
  have "submissionQueue st3 = [item1, item2]"
    using 3(2) by (simp add: sample_client_def initial_client_def)
  with 1(1) 3(1) 3(3) p1 show ?thesis by auto
qed

lemma fetch_unusable:
  assumes "content_list_unusable atob' parse getContent"
  shows "existingContentList (fetchExistingContentList atob' parse getContent st) = []"
proof (cases getContent)
  case (Inl e)
  then show ?thesis by (simp add: fetchExistingContentList_def)
next
  case (Inr data)
  with assms obtain c where c: "data = Some c"
    by (cases data) (auto simp: content_list_unusable_def)
  show ?thesis
  proof (cases "atob' c")
    case None
    with Inr c show ?thesis by (simp add: fetchExistingContentList_def)
  next
    case (Some content)
    show ?thesis
    proof (cases "parse content")
      case None
      with Inr c Some show ?thesis by (simp add: fetchExistingContentList_def)
    next
      case (Some v)
      with assms Inr c \<open>atob' c = Some content\<close> have "\<not> has_three_arrays v"
        by (simp add: content_list_unusable_def)
      then have "fetchExistingContentList atob' parse (Inr (Some c)) st
                 = st\<lparr>existingContentList := []\<rparr>"
        using Some \<open>atob' c = Some content\<close>
        by (cases v) (auto simp: fetchExistingContentList_def has_three_arrays_def)
      with Inr c show ?thesis by simp
    qed
  qed
qed

lemma create_keeps_manifest:
  "existingContentList (fst (createPullRequest p targetEnv now api st)) = existingContentList st"
  by (simp add: createPullRequest_def Let_def showStatus_def resetForms_def
      split: option.splits prod.splits sum.splits)

lemma run_keeps_empty_manifest:
  assumes "\<not> refetches operation" "existingContentList st = []"
  shows "existingContentList (run p targetEnv operation st) = []"
proof (cases operation)
  case (AddToQueue fm)
  then show ?thesis using assms(2) add_keeps_manifest[of "toLowerCase p" fm st]
    by (auto split: sum.splits)
next
  case (CreatePullRequest now api)
  then show ?thesis using assms(2) by (simp add: create_keeps_manifest)
qed (use assms in \<open>auto simp: initiateGitHubLogin_def initial_client_def resetForms_def
      skinFileChanged_def coverflowFileChanged_def removeFromQueue_def showStatus_def Let_def
      split: option.splits sum.splits\<close>)

lemma runs_keep_empty_manifest:
  "\<forall>operation\<in>set operations. \<not> refetches operation \<Longrightarrow> existingContentList st = [] \<Longrightarrow>
   existingContentList (foldl (\<lambda>s operation. run p targetEnv operation s) st operations) = []"
  by (induction operations arbitrary: st) (simp_all add: run_keeps_empty_manifest)

text \<open>
  C10. When the request for \<^verbatim>\<open>repo/list.json\<close> fails, or its content cannot be decoded
  or parsed, or the parsed value is not an object with the three arrays,
  \<^verbatim>\<open>fetchExistingContentList\<close> leaves the empty list; the list stays empty through all
  operations that do not fetch it again, the duplicate check then finds no identifier, and
  every add operation that derives an identifier appends its item.
\<close>

theorem unusable_content_list_disables_duplicate_check:
  assumes "content_list_unusable (atob p) (JSON_parse p) getContent"
    and "\<forall>operation\<in>set operations. \<not> refetches operation"
    and "later = foldl (\<lambda>s operation. run p targetEnv operation s)
                   (fetchExistingContentList (atob p) (JSON_parse p) getContent st) operations"
  shows "existingContentList (fetchExistingContentList (atob p) (JSON_parse p) getContent st) = []
         \<and> existingContentList later = []
         \<and> someHasId (existingContentList later) ident = Inr False
         \<and> (\<forall>fm identity. derived_identity fm later = Some identity \<longrightarrow>
               (\<exists>st' item. handleAddToQueue (toLowerCase p) fm later = Inr st'
                  \<and> submissionQueue st' = submissionQueue later @ [item]))"
proof -
  have e: "existingContentList (fetchExistingContentList (atob p) (JSON_parse p) getContent st) = []"
    using assms(1) by (rule fetch_unusable)
  have l: "existingContentList later = []"
    unfolding assms(3) using assms(2) e by (rule runs_keep_empty_manifest)
  have "\<exists>st' item. handleAddToQueue (toLowerCase p) fm later = Inr st'
                  \<and> submissionQueue st' = submissionQueue later @ [item]"
    if "derived_identity fm later = Some identity" for fm identity
  proof -
    obtain pre author name where i: "identity = (pre, author, name)"
      by (cases identity) auto
    from add_when_derived[OF that[unfolded i], of "toLowerCase p"] l
    obtain item where "handleAddToQueue (toLowerCase p) fm later = Inr (pushItem item later)"
      by auto
    then show ?thesis using push_queue[of item later] by blast
  qed
  with e l show ?thesis by simp
qed

theorem unusable_content_list_disables_duplicate_check_witness:
  "content_list_unusable (atob sample_platform) (JSON_parse sample_platform) (Inr (Some ''bnVsbA==''))
   \<and> \<not> refetches (AddToQueue sample_background_form)
   \<and> (\<exists>st' item1 item2.
        handleAddToQueue (toLowerCase sample_platform) sample_background_form
          (run sample_platform None (AddToQueue sample_background_form)
             (fetchExistingContentList (atob sample_platform) (JSON_parse sample_platform)
                (Inr (Some ''bnVsbA=='')) null_entry_client)) = Inr st'
        \<and> submissionQueue st' = [item1, item2])"
proof -
  define later where "later = foldl (\<lambda>s operation. run sample_platform None operation s)
      (fetchExistingContentList (atob sample_platform) (JSON_parse sample_platform)
         (Inr (Some ''bnVsbA=='')) null_entry_client) [AddToQueue sample_background_form]"
  have u: "content_list_unusable (atob sample_platform) (JSON_parse sample_platform)
             (Inr (Some ''bnVsbA==''))"
    by (simp add: content_list_unusable_def sample_platform_def has_three_arrays_def)
  have r: "\<forall>operation\<in>set [AddToQueue sample_background_form]. \<not> refetches operation"
    by simp
  have d: "derived_identity sample_background_form later = Some (''bg'', ''Ann'', ''Blue Sky'')"
    by (simp add: derived_identity_def sample_background_form_def)
  from unusable_content_list_disables_duplicate_check[OF u r later_def] d
  obtain st' item where
    h: "handleAddToQueue (toLowerCase sample_platform) sample_background_form later = Inr st'"
       "submissionQueue st' = submissionQueue later @ [item]"
    and e: "existingContentList (fetchExistingContentList (atob sample_platform)
              (JSON_parse sample_platform) (Inr (Some ''bnVsbA=='')) null_entry_client) = []"
    by blast
  define fetched where "fetched = fetchExistingContentList (atob sample_platform)
              (JSON_parse sample_platform) (Inr (Some ''bnVsbA=='')) null_entry_client"
  have q0: "submissionQueue fetched = []"
    by (simp add: fetched_def fetchExistingContentList_def sample_platform_def
        null_entry_client_def sample_client_def initial_client_def)
  have df: "derived_identity sample_background_form fetched = Some (''bg'', ''Ann'', ''Blue Sky'')"
    by (simp add: derived_identity_def sample_background_form_def)
  from add_when_derived[OF df, of "toLowerCase sample_platform"] e
  obtain item1 where "handleAddToQueue (toLowerCase sample_platform) sample_background_form fetched
                      = Inr (pushItem item1 fetched)"
    by (auto simp: fetched_def)
  then have "submissionQueue later = [item1\<lparr>item_id := nextItemId fetched\<rparr>]"
    using q0 by (simp add: later_def fetched_def[symmetric] push_queue)
  with h have "\<exists>st' item1 item2.
        handleAddToQueue (toLowerCase sample_platform) sample_background_form later = Inr st'
        \<and> submissionQueue st' = [item1, item2]"
    by auto
  with u show ?thesis by (simp add: later_def)
qed

section \<open>The pull request\<close>

lemma succeeded_simps [simp]:
  "succeeded (r, Inr v)" "\<not> succeeded (r, Inl m)"
  by (simp_all add: succeeded_def)

lemma perform_eq: "perform api r log = (a, log') \<longleftrightarrow> a = api log r \<and> log' = log @ [(r, a)]"
  by (auto simp: perform_def)

lemma answered_by_snoc:
  "answered_by api log \<Longrightarrow> answered_by api (log @ [(r, api log r)])"
  by (auto simp: answered_by_def nth_append less_Suc_eq)

lemma commitFiles_success:
  "commitFiles api forkOwner branchName fs log = (Inr u, log') \<Longrightarrow>
   \<exists>answers. length answers = length fs
     \<and> log' = log @ concat (map (commit_exchanges forkOwner branchName) (zip fs answers))"
proof (induction fs arbitrary: log)
  case Nil
  then show ?case by simp
next
  case (Cons qf rest)
  from Cons.prems obtain content ack where
    c: "api log (ReadFileAsBase64 (file qf)) = Inr content" and
    a: "api (log @ [(ReadFileAsBase64 (file qf), Inr content)])
          (CreateOrUpdateFileContents forkOwner GITHUB_REPO_NAME (desiredPath qf)
             (''Add '' @ file_name (file qf)) content branchName) = Inr ack" and
    r: "commitFiles api forkOwner branchName rest
          (log @ commit_exchanges forkOwner branchName (qf, content, ack)) = (Inr u, log')"
    by (auto simp: perform_def commit_exchanges_def split: sum.splits)
  from Cons.IH[OF r] obtain answers where
    "length answers = length rest"
    "log' = (log @ commit_exchanges forkOwner branchName (qf, content, ack))
            @ concat (map (commit_exchanges forkOwner branchName) (zip rest answers))"
    by blast
  then have "length ((content, ack) # answers) = length (qf # rest)
     \<and> log' = log @ concat (map (commit_exchanges forkOwner branchName)
                              (zip (qf # rest) ((content, ack) # answers)))"
    by simp
  then show ?case by blast
qed

lemma commitFiles_failure:
  "commitFiles api forkOwner branchName fs log = (Inl message, log') \<Longrightarrow>
   \<exists>before r. log' = log @ before @ [(r, Inl message)] \<and> (\<forall>x\<in>set before. succeeded x)"
proof (induction fs arbitrary: log)
  case Nil
  then show ?case by simp
next
  case (Cons qf rest)
  show ?case
  proof (cases "api log (ReadFileAsBase64 (file qf))")
    case (Inl m)
    with Cons.prems have "log' = log @ [] @ [(ReadFileAsBase64 (file qf), Inl message)]"
      by (auto simp: perform_def)
    then show ?thesis by (metis empty_iff list.set(1))
  next
    case (Inr content)
    let ?c = "CreateOrUpdateFileContents forkOwner GITHUB_REPO_NAME (desiredPath qf)
             (''Add '' @ file_name (file qf)) content branchName"
    let ?log1 = "log @ [(ReadFileAsBase64 (file qf), Inr content)]"
    show ?thesis
    proof (cases "api ?log1 ?c")
      case (Inl m)
      with Inr Cons.prems have
        "log' = log @ [(ReadFileAsBase64 (file qf), Inr content)] @ [(?c, Inl message)]"
        by (auto simp: perform_def)
      moreover have "\<forall>x\<in>set [(ReadFileAsBase64 (file qf), Inr content)]. succeeded x"
        by simp
      ultimately show ?thesis by blast
    next
      case (Inr ack)
      with \<open>api log (ReadFileAsBase64 (file qf)) = Inr content\<close> Cons.prems
      have "commitFiles api forkOwner branchName rest (?log1 @ [(?c, Inr ack)])
            = (Inl message, log')"
        by (auto simp: perform_def)
      from Cons.IH[OF this] obtain before r where
        "log' = (?log1 @ [(?c, Inr ack)]) @ before @ [(r, Inl message)]"
        "\<forall>x\<in>set before. succeeded x"
        by blast
      then have "log' = log @ ([(ReadFileAsBase64 (file qf), Inr content), (?c, Inr ack)] @ before)
                         @ [(r, Inl message)]"
        "\<forall>x\<in>set ([(ReadFileAsBase64 (file qf), Inr content), (?c, Inr ack)] @ before).
            succeeded x"
        by auto
      then show ?thesis by blast
    qed
  qed
qed

lemma commitFiles_answered:
  "answered_by api log \<Longrightarrow> answered_by api (snd (commitFiles api forkOwner branchName fs log))"
proof (induction fs arbitrary: log)
  case Nil
  then show ?case by simp
next
  case (Cons qf rest)
  note s1 = answered_by_snoc[OF Cons.prems, of "ReadFileAsBase64 (file qf)"]
  show ?case
  proof (cases "api log (ReadFileAsBase64 (file qf))")
    case (Inl m)
    with s1 show ?thesis by (simp add: perform_def)
  next
    case (Inr content)
    let ?c = "CreateOrUpdateFileContents forkOwner GITHUB_REPO_NAME (desiredPath qf)
             (''Add '' @ file_name (file qf)) content branchName"
    let ?log1 = "log @ [(ReadFileAsBase64 (file qf), Inr content)]"
    from s1 Inr have a1: "answered_by api ?log1" by simp
    note s2 = answered_by_snoc[OF a1, of ?c]
    show ?thesis
    proof (cases "api ?log1 ?c")
      case (Inl m)
      with Inr s2 show ?thesis by (simp add: perform_def)
    next
      case (Inr ack)
      with \<open>api log (ReadFileAsBase64 (file qf)) = Inr content\<close> s2 Cons.IH[of "?log1 @ [(?c, Inr ack)]"]
      show ?thesis by (simp add: perform_def)
    qed
  qed
qed

lemma commitFiles_failure_last:
  assumes "commitFiles api forkOwner branchName fs log = (Inl message, log')"
    and "\<forall>x\<in>set log. succeeded x"
  shows "log' \<noteq> [] \<and> snd (last log') = Inl message \<and> (\<forall>x\<in>set (butlast log'). succeeded x)"
proof -
  from commitFiles_failure[OF assms(1)] obtain before r where
    l: "log' = log @ before @ [(r, Inl message)]" and b: "\<forall>x\<in>set before. succeeded x"
    by blast
  have "butlast log' = log @ before"
    using l by (simp add: butlast_append)
  with l b assms(2) show ?thesis by auto
qed

lemma submitBatch_cases:
  fixes target api branchName prTitle prDescription fs
  defines "r1 \<equiv> CreateFork GITHUB_REPO_OWNER GITHUB_REPO_NAME"
    and "r2 \<equiv> ReposGet GITHUB_REPO_OWNER GITHUB_REPO_NAME"
  obtains
    (fork) m log where "log = [(r1, Inl m)]" "answered_by api log"
      "submitBatch target api branchName prTitle prDescription fs = (Inl m, log)"
  | (repo) forkOwner m log where "log = [(r1, Inr forkOwner), (r2, Inl m)]"
      "answered_by api log"
      "submitBatch target api branchName prTitle prDescription fs = (Inl m, log)"
  | (getRef) forkOwner defaultBranch m log where
      "log = [(r1, Inr forkOwner), (r2, Inr defaultBranch),
              (GitGetRef forkOwner GITHUB_REPO_NAME (''heads/'' @ defaultBranch), Inl m)]"
      "answered_by api log"
      "submitBatch target api branchName prTitle prDescription fs = (Inl m, log)"
  | (createRef) forkOwner defaultBranch sha m log where
      "log = [(r1, Inr forkOwner), (r2, Inr defaultBranch),
              (GitGetRef forkOwner GITHUB_REPO_NAME (''heads/'' @ defaultBranch), Inr sha),
              (GitCreateRef forkOwner GITHUB_REPO_NAME (''refs/heads/'' @ branchName) sha,
               Inl m)]"
      "answered_by api log"
      "submitBatch target api branchName prTitle prDescription fs = (Inl m, log)"
  | (commit) forkOwner defaultBranch sha ack1 m log4 log5 where
      "log4 = [(r1, Inr forkOwner), (r2, Inr defaultBranch),
               (GitGetRef forkOwner GITHUB_REPO_NAME (''heads/'' @ defaultBranch), Inr sha),
               (GitCreateRef forkOwner GITHUB_REPO_NAME (''refs/heads/'' @ branchName) sha,
                Inr ack1)]"
      "answered_by api log4"
      "commitFiles api forkOwner branchName fs log4 = (Inl m, log5)"
      "submitBatch target api branchName prTitle prDescription fs = (Inl m, log5)"
  | (pull) forkOwner defaultBranch sha ack1 u log4 log5 answer where
      "log4 = [(r1, Inr forkOwner), (r2, Inr defaultBranch),
               (GitGetRef forkOwner GITHUB_REPO_NAME (''heads/'' @ defaultBranch), Inr sha),
               (GitCreateRef forkOwner GITHUB_REPO_NAME (''refs/heads/'' @ branchName) sha,
                Inr ack1)]"
      "answered_by api log4"
      "commitFiles api forkOwner branchName fs log4 = (Inr u, log5)"
      "answer = api log5 (PullsCreate GITHUB_REPO_OWNER GITHUB_REPO_NAME prTitle
                            prDescription (forkOwner @ '':'' @ branchName) target)"
      "submitBatch target api branchName prTitle prDescription fs
       = ((case answer of Inl m \<Rightarrow> Inl m | Inr v \<Rightarrow> Inr ()),
          log5 @ [(PullsCreate GITHUB_REPO_OWNER GITHUB_REPO_NAME prTitle prDescription
                     (forkOwner @ '':'' @ branchName) target, answer)])"
proof -
  have e: "answered_by api []" by (simp add: answered_by_def)
  show ?thesis
  proof (cases "api [] r1")
    case (Inl m)
    moreover from answered_by_snoc[OF e, of r1] Inl have "answered_by api [(r1, Inl m)]"
      by simp
    ultimately show ?thesis
      using fork by (simp add: submitBatch_def perform_def r1_def)
  next
    case 1: (Inr forkOwner)
    let ?l1 = "[(r1, Inr forkOwner)]"
    from answered_by_snoc[OF e, of r1] 1 have a1: "answered_by api ?l1"
      by simp
    show ?thesis
    proof (cases "api ?l1 r2")
      case (Inl m)
      moreover from answered_by_snoc[OF a1, of r2] Inl
      have "answered_by api [(r1, Inr forkOwner), (r2, Inl m)]"
        by simp
      ultimately show ?thesis
        using 1 repo by (simp add: submitBatch_def perform_def r1_def r2_def)
    next
      case 2: (Inr defaultBranch)
      let ?r3 = "GitGetRef forkOwner GITHUB_REPO_NAME (''heads/'' @ defaultBranch)"
      let ?l2 = "[(r1, Inr forkOwner), (r2, Inr defaultBranch)]"
      from answered_by_snoc[OF a1, of r2] 2 have a2: "answered_by api ?l2"
        by simp
      show ?thesis
      proof (cases "api ?l2 ?r3")
        case (Inl m)
        moreover from answered_by_snoc[OF a2, of ?r3] Inl
        have "answered_by api [(r1, Inr forkOwner), (r2, Inr defaultBranch), (?r3, Inl m)]"
          by simp
        ultimately show ?thesis
          using 1 2 getRef by (simp add: submitBatch_def perform_def r1_def r2_def)
      next
        case 3: (Inr sha)
        let ?r4 = "GitCreateRef forkOwner GITHUB_REPO_NAME (''refs/heads/'' @ branchName) sha"
        let ?l3 = "[(r1, Inr forkOwner), (r2, Inr defaultBranch), (?r3, Inr sha)]"
        from answered_by_snoc[OF a2, of ?r3] 3 have a3: "answered_by api ?l3"
          by simp
        show ?thesis
        proof (cases "api ?l3 ?r4")
          case (Inl m)
          moreover from answered_by_snoc[OF a3, of ?r4] Inl
          have "answered_by api [(r1, Inr forkOwner), (r2, Inr defaultBranch),
                                 (?r3, Inr sha), (?r4, Inl m)]"
            by simp
          ultimately show ?thesis
            using 1 2 3 createRef by (simp add: submitBatch_def perform_def r1_def r2_def)
        next
          case 4: (Inr ack1)
          let ?l4 = "[(r1, Inr forkOwner), (r2, Inr defaultBranch), (?r3, Inr sha),
                      (?r4, Inr ack1)]"
          from answered_by_snoc[OF a3, of ?r4] 4 have a4: "answered_by api ?l4"
            by simp
          obtain res log5 where 5: "commitFiles api forkOwner branchName fs ?l4 = (res, log5)"
            by (cases "commitFiles api forkOwner branchName fs ?l4")
          show ?thesis
          proof (cases res)
            case (Inl m)
            with 1 2 3 4 5 a4 show ?thesis
              using commit[of ?l4 forkOwner defaultBranch sha ack1 m log5]
              by (simp add: submitBatch_def perform_def r1_def r2_def)
          next
            case (Inr u)
            with 1 2 3 4 5 a4 show ?thesis
              using pull[of ?l4 forkOwner defaultBranch sha ack1 u log5
                  "api log5 (PullsCreate GITHUB_REPO_OWNER GITHUB_REPO_NAME prTitle
                     prDescription (forkOwner @ '':'' @ branchName) target)"]
              by (simp add: submitBatch_def perform_def r1_def r2_def split: sum.splits)
          qed
        qed
      qed
    qed
  qed
qed

lemma submitBatch_failure:
  assumes "submitBatch target api branchName prTitle prDescription fs = (Inl message, log)"
  shows "log \<noteq> [] \<and> snd (last log) = Inl message \<and> (\<forall>x\<in>set (butlast log). succeeded x)"
proof (cases target api branchName prTitle prDescription fs rule: submitBatch_cases)
  case (commit forkOwner defaultBranch sha ack1 m log4 log5)
  with assms have "m = message" "log5 = log" by simp_all
  with commit(1,3) show ?thesis
    by (auto dest!: commitFiles_failure_last)
next
  case (pull forkOwner defaultBranch sha ack1 u log4 log5 answer)
  from commitFiles_success[OF pull(3)] pull(1) have "\<forall>x\<in>set log5. succeeded x"
    by (auto simp: commit_exchanges_def dest!: set_zip_leftD)
  with pull(5) assms show ?thesis
    by (auto split: sum.splits)
qed (use assms in auto)

lemma submitBatch_success:
  assumes "submitBatch target api branchName prTitle prDescription fs = (Inr u, log)"
  shows "\<exists>forkOwner defaultBranch sha ack1 answers ack2.
           length answers = length fs
           \<and> log = [(CreateFork GITHUB_REPO_OWNER GITHUB_REPO_NAME, Inr forkOwner),
                    (ReposGet GITHUB_REPO_OWNER GITHUB_REPO_NAME, Inr defaultBranch),
                    (GitGetRef forkOwner GITHUB_REPO_NAME (''heads/'' @ defaultBranch), Inr sha),
                    (GitCreateRef forkOwner GITHUB_REPO_NAME (''refs/heads/'' @ branchName) sha,
                     Inr ack1)]
                   @ concat (map (commit_exchanges forkOwner branchName) (zip fs answers))
                   @ [(PullsCreate GITHUB_REPO_OWNER GITHUB_REPO_NAME prTitle prDescription
                         (forkOwner @ '':'' @ branchName) target, Inr ack2)]"
proof (cases target api branchName prTitle prDescription fs rule: submitBatch_cases)
  case (pull forkOwner defaultBranch sha ack1 u' log4 log5 answer)
  from pull(5) assms obtain ack2 where a: "answer = Inr ack2"
    and l: "log = log5 @ [(PullsCreate GITHUB_REPO_OWNER GITHUB_REPO_NAME prTitle prDescription
                     (forkOwner @ '':'' @ branchName) target, answer)]"
    by (cases answer) auto
  from commitFiles_success[OF pull(3)] pull(1) obtain answers where
    "length answers = length fs"
    "log5 = [(CreateFork GITHUB_REPO_OWNER GITHUB_REPO_NAME, Inr forkOwner),
             (ReposGet GITHUB_REPO_OWNER GITHUB_REPO_NAME, Inr defaultBranch),
             (GitGetRef forkOwner GITHUB_REPO_NAME (''heads/'' @ defaultBranch), Inr sha),
             (GitCreateRef forkOwner GITHUB_REPO_NAME (''refs/heads/'' @ branchName) sha,
              Inr ack1)]
            @ concat (map (commit_exchanges forkOwner branchName) (zip fs answers))"
    by blast
  with a l show ?thesis by (intro exI[of _ forkOwner] exI[of _ defaultBranch] exI[of _ sha]
      exI[of _ ack1] exI[of _ answers] exI[of _ ack2]) simp
qed (use assms in auto)

lemma submitBatch_answered:
  "answered_by api (snd (submitBatch target api branchName prTitle prDescription fs))"
proof (cases target api branchName prTitle prDescription fs rule: submitBatch_cases)
  case (commit forkOwner defaultBranch sha ack1 m log4 log5)
  then show ?thesis
    using commitFiles_answered[of api log4 forkOwner branchName fs] by simp
next
  case (pull forkOwner defaultBranch sha ack1 u log4 log5 answer)
  then have "answered_by api log5"
    using commitFiles_answered[of api log4 forkOwner branchName fs] by simp
  from answered_by_snoc[OF this] pull(4,5) show ?thesis
    by simp
qed simp_all

lemma commit_exchanges_filter:
  "filter (is_branch_creation \<circ> fst)
     (concat (map (commit_exchanges forkOwner branchName) xs)) = []"
  "filter (is_pull_request \<circ> fst)
     (concat (map (commit_exchanges forkOwner branchName) xs)) = []"
  "filter (is_fork \<circ> fst)
     (concat (map (commit_exchanges forkOwner branchName) xs)) = []"
  by (induction xs) (auto simp: commit_exchanges_def)

lemma find_None_sizes: "sizes_ok st \<Longrightarrow>
  find (\<lambda>qf. \<not> validateFileSize (file qf) (maxSize qf))
    (concat (map item_files (submissionQueue st))) = None"
  by (auto simp: sizes_ok_def find_None_iff list_all_iff)

lemma createPullRequest_cases:
  obtains
    (empty) "submissionQueue st = []" "snd (createPullRequest p targetEnv now api st) = []"
      "submissionQueue (fst (createPullRequest p targetEnv now api st)) = submissionQueue st"
  | (size) "submissionQueue st \<noteq> []" "\<not> sizes_ok st"
      "snd (createPullRequest p targetEnv now api st) = []"
      "submissionQueue (fst (createPullRequest p targetEnv now api st)) = submissionQueue st"
  | (failed) branchName prTitle prDescription message log where
      "submissionQueue st \<noteq> []" "sizes_ok st"
      "submitBatch (GITHUB_TARGET_BRANCH targetEnv) api branchName prTitle prDescription
         (concat (map item_files (submissionQueue st))) = (Inl message, log)"
      "createPullRequest p targetEnv now api st
       = (showStatus (''Error creating Pull Request: '' @ message) StatusError st, log)"
  | (created) branchName prTitle prDescription u log where
      "submissionQueue st \<noteq> []" "sizes_ok st"
      "submitBatch (GITHUB_TARGET_BRANCH targetEnv) api branchName prTitle prDescription
         (concat (map item_files (submissionQueue st))) = (Inr u, log)"
      "createPullRequest p targetEnv now api st
       = (resetForms ((showStatus ''Pull Request created successfully!'' StatusSuccess st)
                        \<lparr>submissionQueue := []\<rparr>), log)"
proof (cases "submissionQueue st = []")
  case True
  then show ?thesis using empty by (simp add: createPullRequest_def showStatus_def)
next
  case q: False
  show ?thesis
  proof (cases "sizes_ok st")
    case False
    then obtain qf where
      "find (\<lambda>qf. \<not> validateFileSize (file qf) (maxSize qf))
         (concat (map item_files (submissionQueue st))) = Some qf"
      by (cases "find (\<lambda>qf. \<not> validateFileSize (file qf) (maxSize qf))
                   (concat (map item_files (submissionQueue st)))")
         (auto simp: sizes_ok_def find_None_iff list_all_iff)
    with q False show ?thesis
      using size by (simp add: createPullRequest_def showStatus_def Let_def)
  next
    case True
    note f = find_None_sizes[OF True]
    define branchName where
      "branchName = ''add/submission-batch-'' @ filter (\<lambda>c. c \<notin> set ''-:.'') now"
    define prTitle where
      "prTitle = ''Batch Submission: '' @ join '', '' (map item_name (submissionQueue st))"
    define prDescription where
      "prDescription = ''This PR includes the following submissions:'' @ [CHR 0x0A, CHR 0x0A]
                       @ join [CHR 0x0A]
                           (map (\<lambda>item. ''*   **'' @ item_name item @ ''** by ''
                                        @ item_author item @ '' ('' @ item_type item @ '')'')
                                (submissionQueue st))"
    obtain res log where s:
      "submitBatch (GITHUB_TARGET_BRANCH targetEnv) api branchName prTitle prDescription
         (concat (map item_files (submissionQueue st))) = (res, log)"
      by (cases "submitBatch (GITHUB_TARGET_BRANCH targetEnv) api branchName prTitle
                   prDescription (concat (map item_files (submissionQueue st)))")
    show ?thesis
    proof (cases res)
      case (Inl message)
      with s q True f show ?thesis
        using failed[of branchName prTitle prDescription message log]
        by (simp add: createPullRequest_def Let_def branchName_def prTitle_def prDescription_def)
    next
      case (Inr u)
      with s q True f show ?thesis
        using created[of branchName prTitle prDescription u log]
        by (simp add: createPullRequest_def Let_def branchName_def prTitle_def prDescription_def)
    qed
  qed
qed

text \<open>
  C4, as amended. When the queue is not empty, every queued file passes its size check
  and every request that \<^verbatim>\<open>createPullRequest\<close> makes succeeds, the requests are, in order:
  the creation of the fork, the lookup of the repository and of the ref of its default
  branch on the fork, the creation of one branch on the fork, for every file of every queued
  item the reading of the file and one commit of it at its \<^verbatim>\<open>desiredPath\<close> on that branch,
  and one pull request whose head is that branch of the fork and whose base is
  \<^verbatim>\<open>GITHUB_TARGET_BRANCH\<close>, which is \<^verbatim>\<open>main\<close> when the variable is unset; the queue is
  then empty.
\<close>

theorem createPullRequest_success_path:
  assumes "submissionQueue st \<noteq> []" and "sizes_ok st"
    and "createPullRequest p targetEnv now api st = (st', log)"
    and "\<forall>x\<in>set log. succeeded x"
  shows "(\<exists>forkOwner defaultBranch sha branchName title body ack1 answers ack2.
            length answers = length (concat (map item_files (submissionQueue st)))
            \<and> log = [(CreateFork GITHUB_REPO_OWNER GITHUB_REPO_NAME, Inr forkOwner),
                     (ReposGet GITHUB_REPO_OWNER GITHUB_REPO_NAME, Inr defaultBranch),
                     (GitGetRef forkOwner GITHUB_REPO_NAME (''heads/'' @ defaultBranch),
                      Inr sha),
                     (GitCreateRef forkOwner GITHUB_REPO_NAME (''refs/heads/'' @ branchName)
                        sha, Inr ack1)]
                    @ concat (map (commit_exchanges forkOwner branchName)
                               (zip (concat (map item_files (submissionQueue st))) answers))
                    @ [(PullsCreate GITHUB_REPO_OWNER GITHUB_REPO_NAME title body
                          (forkOwner @ '':'' @ branchName) (GITHUB_TARGET_BRANCH targetEnv),
                        Inr ack2)])
         \<and> length (filter (is_fork \<circ> fst) log) = 1
         \<and> length (filter (is_branch_creation \<circ> fst) log) = 1
         \<and> length (filter (is_pull_request \<circ> fst) log) = 1
         \<and> submissionQueue st' = []
         \<and> GITHUB_TARGET_BRANCH None = ''main''
         \<and> (\<forall>branch. branch \<noteq> [] \<longrightarrow> GITHUB_TARGET_BRANCH (Some branch) = branch)"
proof (cases rule: createPullRequest_cases
    [where st = st and p = p and targetEnv = targetEnv and now = now and api = api])
  case empty
  with assms(1) show ?thesis by simp
next
  case size
  with assms(2) show ?thesis by simp
next
  case (failed branchName prTitle prDescription message log')
  with assms(3) have "log' = log" by simp
  with submitBatch_failure[OF failed(3)] assms(4) have False
    by (cases log rule: rev_cases) auto
  then show ?thesis ..
next
  case (created branchName prTitle prDescription u log')
  with assms(3) have l: "log' = log" and s: "submissionQueue st' = []"
    by (auto simp: resetForms_def showStatus_def)
  from submitBatch_success[OF created(3)[unfolded l]]
  obtain forkOwner defaultBranch sha ack1 answers ack2 where
    n: "length answers = length (concat (map item_files (submissionQueue st)))" and
    shape: "log = [(CreateFork GITHUB_REPO_OWNER GITHUB_REPO_NAME, Inr forkOwner),
                     (ReposGet GITHUB_REPO_OWNER GITHUB_REPO_NAME, Inr defaultBranch),
                     (GitGetRef forkOwner GITHUB_REPO_NAME (''heads/'' @ defaultBranch),
                      Inr sha),
                     (GitCreateRef forkOwner GITHUB_REPO_NAME (''refs/heads/'' @ branchName)
                        sha, Inr ack1)]
                    @ concat (map (commit_exchanges forkOwner branchName)
                               (zip (concat (map item_files (submissionQueue st))) answers))
                    @ [(PullsCreate GITHUB_REPO_OWNER GITHUB_REPO_NAME prTitle prDescription
                          (forkOwner @ '':'' @ branchName) (GITHUB_TARGET_BRANCH targetEnv),
                        Inr ack2)]"
    by blast
  have counts: "length (filter (is_fork \<circ> fst) log) = 1"
    "length (filter (is_branch_creation \<circ> fst) log) = 1"
    "length (filter (is_pull_request \<circ> fst) log) = 1"
    unfolding shape by (simp_all add: commit_exchanges_filter)
  have env: "GITHUB_TARGET_BRANCH None = ''main''"
    "\<forall>branch. branch \<noteq> [] \<longrightarrow> GITHUB_TARGET_BRANCH (Some branch) = branch"
    by (simp_all add: GITHUB_TARGET_BRANCH_def)
  from n shape counts s env show ?thesis by blast
qed

lemma queued_ok: "submissionQueue queued_client \<noteq> []" "sizes_ok queued_client"
  by (simp_all add: queued_client_def sizes_ok_def sample_item_def sample_image_def
      validateFileSize_def)

theorem createPullRequest_success_path_witness:
  "submissionQueue queued_client \<noteq> [] \<and> sizes_ok queued_client
   \<and> snd (createPullRequest sample_platform None sample_now accepting_api queued_client)
     = [(CreateFork ''DanielmGM'' ''AuroraSkins'', Inr ''ann''),
        (ReposGet ''DanielmGM'' ''AuroraSkins'', Inr ''master''),
        (GitGetRef ''ann'' ''AuroraSkins'' ''heads/master'', Inr ''c0ffee''),
        (GitCreateRef ''ann'' ''AuroraSkins''
           ''refs/heads/add/submission-batch-20250102T030405678Z'' ''c0ffee'', Inr []),
        (ReadFileAsBase64 sample_image, Inr ''AAAA''),
        (CreateOrUpdateFileContents ''ann'' ''AuroraSkins''
           ''repo/backgrounds/bg.ann.bluesky.jpg'' ''Add sky.jpg'' ''AAAA''
           ''add/submission-batch-20250102T030405678Z'', Inr []),
        (PullsCreate ''DanielmGM'' ''AuroraSkins'' ''Batch Submission: Blue Sky''
           (''This PR includes the following submissions:'' @ [CHR 0x0A, CHR 0x0A]
            @ ''*   **Blue Sky** by Ann (background)'')
           ''ann:add/submission-batch-20250102T030405678Z'' ''main'', Inr [])]
   \<and> submissionQueue
        (fst (createPullRequest sample_platform None sample_now accepting_api queued_client))
      = []"
proof -
  let ?R = "createPullRequest sample_platform None sample_now accepting_api queued_client"
  have log: "snd ?R
     = [(CreateFork ''DanielmGM'' ''AuroraSkins'', Inr ''ann''),
        (ReposGet ''DanielmGM'' ''AuroraSkins'', Inr ''master''),
        (GitGetRef ''ann'' ''AuroraSkins'' ''heads/master'', Inr ''c0ffee''),
        (GitCreateRef ''ann'' ''AuroraSkins''
           ''refs/heads/add/submission-batch-20250102T030405678Z'' ''c0ffee'', Inr []),
        (ReadFileAsBase64 sample_image, Inr ''AAAA''),
        (CreateOrUpdateFileContents ''ann'' ''AuroraSkins''
           ''repo/backgrounds/bg.ann.bluesky.jpg'' ''Add sky.jpg'' ''AAAA''
           ''add/submission-batch-20250102T030405678Z'', Inr []),
        (PullsCreate ''DanielmGM'' ''AuroraSkins'' ''Batch Submission: Blue Sky''
           (''This PR includes the following submissions:'' @ [CHR 0x0A, CHR 0x0A]
            @ ''*   **Blue Sky** by Ann (background)'')
           ''ann:add/submission-batch-20250102T030405678Z'' ''main'', Inr [])]"
    by code_simp
  then have all: "\<forall>x\<in>set (snd ?R). succeeded x"
    by simp
  have "?R = (fst ?R, snd ?R)" by simp
  from createPullRequest_success_path[OF queued_ok this all]
  have "submissionQueue (fst ?R) = []" by blast
  with queued_ok log show ?thesis by blast
qed

text \<open>
  C4 as stated fails when a request is rejected: with a queued file that passes its size
  check and a world that rejects the creation of the fork, that request is the only one
  made, and no branch, commit or pull request follows.
\<close>

theorem createPullRequest_rejected_counterexample:
  "submissionQueue queued_client \<noteq> [] \<and> sizes_ok queued_client
   \<and> snd (createPullRequest sample_platform None sample_now rejecting_api queued_client)
     = [(CreateFork ''DanielmGM'' ''AuroraSkins'', Inl ''Bad credentials'')]"
proof -
  have "snd (createPullRequest sample_platform None sample_now rejecting_api queued_client)
     = [(CreateFork ''DanielmGM'' ''AuroraSkins'', Inl ''Bad credentials'')]"
    by code_simp
  with queued_ok show ?thesis by blast
qed

text \<open>
  C5. Every answer in the log of \<^verbatim>\<open>createPullRequest\<close> is the one the outside world gave.
  If a request of the sequence was rejected, it is the last request made, all requests
  before it succeeded, the status shown afterwards is the error message of the rejection,
  and the state, the queue included, is otherwise as before. The queue of a non-empty run is empty afterwards only
  if every request succeeded and the last one created the pull request.
\<close>

theorem createPullRequest_failure_no_rollback:
  assumes "createPullRequest p targetEnv now api st = (st', log)"
  shows "answered_by api log
         \<and> ((\<exists>x\<in>set log. \<not> succeeded x) \<longrightarrow>
              (\<exists>message. snd (last log) = Inl message
                 \<and> (\<forall>x\<in>set (butlast log). succeeded x)
                 \<and> status st' = Some (''Error creating Pull Request: '' @ message, StatusError)
                 \<and> st' = showStatus (''Error creating Pull Request: '' @ message) StatusError st
                 \<and> st' = st\<lparr>status := Some (''Error creating Pull Request: '' @ message,
                                           StatusError)\<rparr>
                 \<and> submissionQueue st' = submissionQueue st))
         \<and> (submissionQueue st \<noteq> [] \<and> submissionQueue st' = [] \<longrightarrow>
              log \<noteq> [] \<and> (\<forall>x\<in>set log. succeeded x)
              \<and> (\<exists>title body head.
                    fst (last log) = PullsCreate GITHUB_REPO_OWNER GITHUB_REPO_NAME title body head
                                       (GITHUB_TARGET_BRANCH targetEnv)))"
proof (cases rule: createPullRequest_cases
    [where st = st and p = p and targetEnv = targetEnv and now = now and api = api])
  case empty
  with assms show ?thesis by (auto simp: answered_by_def)
next
  case size
  with assms show ?thesis by (auto simp: answered_by_def)
next
  case (failed branchName prTitle prDescription message log')
  with assms have l: "log' = log"
    and s: "st' = showStatus (''Error creating Pull Request: '' @ message) StatusError st"
    by simp_all
  from submitBatch_failure[OF failed(3)[unfolded l]]
  have f: "log \<noteq> []" "snd (last log) = Inl message" "\<forall>x\<in>set (butlast log). succeeded x"
    by simp_all
  have a: "answered_by api log"
    using submitBatch_answered[of api "GITHUB_TARGET_BRANCH targetEnv" branchName prTitle
        prDescription "concat (map item_files (submissionQueue st))"] failed(3) l by simp
  have q: "submissionQueue st' = submissionQueue st"
    using s by (simp add: showStatus_def)
  have r: "status st' = Some (''Error creating Pull Request: '' @ message, StatusError)"
    "st' = st\<lparr>status := Some (''Error creating Pull Request: '' @ message, StatusError)\<rparr>"
    using s by (simp_all add: showStatus_def)
  from a f s q r failed(1) show ?thesis by auto
next
  case (created branchName prTitle prDescription u log')
  with assms have l: "log' = log" by simp
  from submitBatch_success[OF created(3)[unfolded l]]
  obtain forkOwner defaultBranch sha ack1 answers ack2 where
    shape: "log = [(CreateFork GITHUB_REPO_OWNER GITHUB_REPO_NAME, Inr forkOwner),
                     (ReposGet GITHUB_REPO_OWNER GITHUB_REPO_NAME, Inr defaultBranch),
                     (GitGetRef forkOwner GITHUB_REPO_NAME (''heads/'' @ defaultBranch),
                      Inr sha),
                     (GitCreateRef forkOwner GITHUB_REPO_NAME (''refs/heads/'' @ branchName)
                        sha, Inr ack1)]
                    @ concat (map (commit_exchanges forkOwner branchName)
                               (zip (concat (map item_files (submissionQueue st))) answers))
                    @ [(PullsCreate GITHUB_REPO_OWNER GITHUB_REPO_NAME prTitle prDescription
                          (forkOwner @ '':'' @ branchName) (GITHUB_TARGET_BRANCH targetEnv),
                        Inr ack2)]"
    by blast
  have ok: "\<forall>x\<in>set log. succeeded x"
    unfolding shape by (auto simp: commit_exchanges_def dest!: set_zip_leftD)
  have last: "fst (last log) = PullsCreate GITHUB_REPO_OWNER GITHUB_REPO_NAME prTitle
                prDescription (forkOwner @ '':'' @ branchName) (GITHUB_TARGET_BRANCH targetEnv)"
    and ne: "log \<noteq> []"
    unfolding shape by simp_all
  have a: "answered_by api log"
    using submitBatch_answered[of api "GITHUB_TARGET_BRANCH targetEnv" branchName prTitle
        prDescription "concat (map item_files (submissionQueue st))"] created(3) l by simp
  from a ok last ne show ?thesis by blast
qed

theorem createPullRequest_failure_no_rollback_witness:
  "snd (createPullRequest sample_platform None sample_now conflicting_api queued_client)
     = [(CreateFork ''DanielmGM'' ''AuroraSkins'', Inr ''ann''),
        (ReposGet ''DanielmGM'' ''AuroraSkins'', Inr ''master''),
        (GitGetRef ''ann'' ''AuroraSkins'' ''heads/master'', Inr ''c0ffee''),
        (GitCreateRef ''ann'' ''AuroraSkins''
           ''refs/heads/add/submission-batch-20250102T030405678Z'' ''c0ffee'', Inr []),
        (ReadFileAsBase64 sample_image, Inr ''AAAA''),
        (CreateOrUpdateFileContents ''ann'' ''AuroraSkins''
           ''repo/backgrounds/bg.ann.bluesky.jpg'' ''Add sky.jpg'' ''AAAA''
           ''add/submission-batch-20250102T030405678Z'', Inl ''Conflict'')]
   \<and> status
        (fst (createPullRequest sample_platform None sample_now conflicting_api queued_client))
     = Some (''Error creating Pull Request: Conflict'', StatusError)
   \<and> status queued_client = None
   \<and> fst (createPullRequest sample_platform None sample_now conflicting_api queued_client)
     = showStatus ''Error creating Pull Request: Conflict'' StatusError queued_client
   \<and> submissionQueue
        (fst (createPullRequest sample_platform None sample_now conflicting_api queued_client))
     = [sample_item]
   \<and> submissionQueue queued_client \<noteq> []
   \<and> submissionQueue
        (fst (createPullRequest sample_platform None sample_now accepting_api queued_client))
     = []
   \<and> fst (last (snd (createPullRequest sample_platform None sample_now accepting_api
                       queued_client)))
     = PullsCreate ''DanielmGM'' ''AuroraSkins'' ''Batch Submission: Blue Sky''
         (''This PR includes the following submissions:'' @ [CHR 0x0A, CHR 0x0A]
          @ ''*   **Blue Sky** by Ann (background)'')
         ''ann:add/submission-batch-20250102T030405678Z'' ''main''"
proof -
  let ?R = "createPullRequest sample_platform None sample_now conflicting_api queued_client"
  let ?S = "createPullRequest sample_platform None sample_now accepting_api queued_client"
  have log: "snd ?R
     = [(CreateFork ''DanielmGM'' ''AuroraSkins'', Inr ''ann''),
        (ReposGet ''DanielmGM'' ''AuroraSkins'', Inr ''master''),
        (GitGetRef ''ann'' ''AuroraSkins'' ''heads/master'', Inr ''c0ffee''),
        (GitCreateRef ''ann'' ''AuroraSkins''
           ''refs/heads/add/submission-batch-20250102T030405678Z'' ''c0ffee'', Inr []),
        (ReadFileAsBase64 sample_image, Inr ''AAAA''),
        (CreateOrUpdateFileContents ''ann'' ''AuroraSkins''
           ''repo/backgrounds/bg.ann.bluesky.jpg'' ''Add sky.jpg'' ''AAAA''
           ''add/submission-batch-20250102T030405678Z'', Inl ''Conflict'')]"
    by code_simp
  then have bad: "\<exists>x\<in>set (snd ?R). \<not> succeeded x"
    by simp
  have "?R = (fst ?R, snd ?R)" by simp
  from createPullRequest_failure_no_rollback[OF this] bad
  obtain message where "snd (last (snd ?R)) = Inl message"
    "status (fst ?R) = Some (''Error creating Pull Request: '' @ message, StatusError)"
    "fst ?R = showStatus (''Error creating Pull Request: '' @ message) StatusError queued_client"
    "submissionQueue (fst ?R) = submissionQueue queued_client"
    by blast
  moreover have "snd (last (snd ?R)) = Inl ''Conflict''"
    unfolding log by simp
  ultimately have failure:
    "status (fst ?R) = Some (''Error creating Pull Request: Conflict'', StatusError)"
    "fst ?R = showStatus ''Error creating Pull Request: Conflict'' StatusError queued_client"
    "submissionQueue (fst ?R) = [sample_item]"
    by (simp_all add: queued_client_def)
  have shown: "status (fst ?R) = Some (''Error creating Pull Request: Conflict'', StatusError)"
    by code_simp
  have before: "status queued_client = None"
    by (simp add: queued_client_def sample_client_def initial_client_def)
  have q: "submissionQueue queued_client \<noteq> []"
    by (simp add: queued_client_def)
  have cleared: "submissionQueue (fst ?S) = []"
    by code_simp
  have "?S = (fst ?S, snd ?S)" by simp
  from createPullRequest_failure_no_rollback[OF this] q cleared
  obtain title body head where
    "fst (last (snd ?S)) = PullsCreate GITHUB_REPO_OWNER GITHUB_REPO_NAME title body head
                             (GITHUB_TARGET_BRANCH None)"
    by blast
  moreover have "fst (last (snd ?S))
     = PullsCreate ''DanielmGM'' ''AuroraSkins'' ''Batch Submission: Blue Sky''
         (''This PR includes the following submissions:'' @ [CHR 0x0A, CHR 0x0A]
          @ ''*   **Blue Sky** by Ann (background)'')
         ''ann:add/submission-batch-20250102T030405678Z'' ''main''"
    by code_simp
  ultimately show ?thesis using log shown failure(2,3) before q cleared by (intro conjI)
qed

section \<open>The persistent storage\<close>

lemma fetch_keeps_storage:
  "localStorage (fetchExistingContentList atob' parse getContent st) = localStorage st"
  by (simp add: fetchExistingContentList_def split: sum.splits option.splits prod.splits)

lemma add_keeps_storage:
  "handleAddToQueue lower fm st = Inr st' \<Longrightarrow> localStorage st' = localStorage st"
  by (auto simp: handleAddToQueue_def Let_def showStatus_def pushItem_def resetForms_def
      split: if_splits option.splits sum.splits prod.splits bool.splits)

lemma create_keeps_storage:
  "localStorage (fst (createPullRequest p targetEnv now api st)) = localStorage st"
  by (simp add: createPullRequest_def Let_def showStatus_def resetForms_def
      split: option.splits prod.splits sum.splits)

lemma checkAuth_storage:
  "localStorage (checkAuth p getAuthenticated getContent st) =
     (case getAuthenticated of
        Inl e \<Rightarrow> (if localStorage st ''github_token'' \<in> {None, Some []} then localStorage st
                  else (localStorage st)(''github_token'' := None))
      | Inr u \<Rightarrow> localStorage st)"
  by (auto simp: checkAuth_def showUploadSection_def fetch_keeps_storage initial_client_def
      split: option.splits sum.splits)

lemma handleCallback_storage:
  "localStorage (handleCallback p code fetched getContent st) = localStorage st
   \<or> (\<exists>c response data token.
         code = Some c \<and> c \<noteq> [] \<and> fetched = Inr response \<and> response_ok response
         \<and> response_json response = Inr data
         \<and> getProp data ''access_token'' = Inr token
         \<and> localStorage (handleCallback p code fetched getContent st)
             = (localStorage st)(''github_token'' \<mapsto> toStr p token))"
  by (cases code)
     (auto simp: handleCallback_def Let_def showStatus_def showUploadSection_def
        fetch_keeps_storage split: sum.splits)

lemma handleCallback_success:
  assumes "code \<noteq> []" "response_ok response" "response_json response = Inr data"
    "getProp data ''error'' = Inr err" "\<not> truthyOpt err"
    "getProp data ''access_token'' = Inr token"
  shows "localStorage (handleCallback p (Some code) (Inr response) getContent st)
         = (localStorage st)(''github_token'' \<mapsto> toStr p token)"
  using assms
  by (simp add: handleCallback_def Let_def showStatus_def showUploadSection_def
      fetch_keeps_storage)

text \<open>
  C7. No operation of the client changes the stored item of any key other than
  \<^verbatim>\<open>github_token\<close>. An operation changes the storage only by removing that key, in
  \<^verbatim>\<open>checkAuth\<close> when the validation of the token is rejected, or by setting it, in
  \<^verbatim>\<open>handleCallback\<close> after an ok response; and in these two cases it does so.
\<close>

theorem only_github_token_is_stored:
  "(\<forall>key. key \<noteq> ''github_token'' \<longrightarrow>
       localStorage (run p targetEnv operation st) key = localStorage st key)
   \<and> (localStorage (run p targetEnv operation st) = localStorage st
        \<or> (\<exists>e getContent.
              operation = CheckAuth (Inl e) getContent
              \<and> localStorage (run p targetEnv operation st)
                  = (localStorage st)(''github_token'' := None))
        \<or> (\<exists>code response getContent data token.
              operation = HandleCallback (Some code) (Inr response) getContent
              \<and> response_ok response \<and> response_json response = Inr data
              \<and> getProp data ''access_token'' = Inr token
              \<and> localStorage (run p targetEnv operation st)
                  = (localStorage st)(''github_token'' \<mapsto> toStr p token)))
   \<and> (\<forall>token e getContent.
         localStorage st ''github_token'' = Some token \<and> token \<noteq> [] \<longrightarrow>
         localStorage (checkAuth p (Inl e) getContent st) ''github_token'' = None)
   \<and> (\<forall>code response data err token getContent.
         code \<noteq> [] \<and> response_ok response \<and> response_json response = Inr data
         \<and> getProp data ''error'' = Inr err \<and> \<not> truthyOpt err
         \<and> getProp data ''access_token'' = Inr token \<longrightarrow>
         localStorage (handleCallback p (Some code) (Inr response) getContent st)
           ''github_token'' = Some (toStr p token))"
proof -
  have frame: "localStorage (run p targetEnv operation st) = localStorage st
        \<or> (\<exists>e getContent.
              operation = CheckAuth (Inl e) getContent
              \<and> localStorage (run p targetEnv operation st)
                  = (localStorage st)(''github_token'' := None))
        \<or> (\<exists>code response getContent data token.
              operation = HandleCallback (Some code) (Inr response) getContent
              \<and> response_ok response \<and> response_json response = Inr data
              \<and> getProp data ''access_token'' = Inr token
              \<and> localStorage (run p targetEnv operation st)
                  = (localStorage st)(''github_token'' \<mapsto> toStr p token))"
  proof (cases operation)
    case (CheckAuth getAuthenticated getContent)
    then show ?thesis
      by (cases getAuthenticated) (auto simp: checkAuth_storage)
  next
    case InitiateGitHubLogin
    then show ?thesis by (simp add: initiateGitHubLogin_def initial_client_def)
  next
    case (HandleCallback code fetched getContent)
    then show ?thesis
      using handleCallback_storage[of p code fetched getContent st] by auto
  next
    case SubmissionTypeChanged
    then show ?thesis by (simp add: resetForms_def)
  next
    case (SkinFileChanged chosen)
    then show ?thesis
      by (simp add: skinFileChanged_def Let_def showStatus_def split: option.splits sum.splits)
  next
    case (CoverflowFileChanged chosen)
    then show ?thesis
      by (simp add: coverflowFileChanged_def Let_def showStatus_def
          split: option.splits sum.splits)
  next
    case (AddToQueue fm)
    then show ?thesis
      using add_keeps_storage[of "toLowerCase p" fm st] by (auto split: sum.splits)
  next
    case (RemoveFromQueue idToRemove)
    then show ?thesis by (simp add: removeFromQueue_def)
  next
    case (CreatePullRequest now api)
    then show ?thesis by (simp add: create_keeps_storage)
  qed
  then have others: "\<forall>key. key \<noteq> ''github_token'' \<longrightarrow>
       localStorage (run p targetEnv operation st) key = localStorage st key"
    by auto
  have removal: "\<forall>token e getContent.
         localStorage st ''github_token'' = Some token \<and> token \<noteq> [] \<longrightarrow>
         localStorage (checkAuth p (Inl e) getContent st) ''github_token'' = None"
    by (simp add: checkAuth_storage)
  have storing: "\<forall>code response data err token getContent.
         code \<noteq> [] \<and> response_ok response \<and> response_json response = Inr data
         \<and> getProp data ''error'' = Inr err \<and> \<not> truthyOpt err
         \<and> getProp data ''access_token'' = Inr token \<longrightarrow>
         localStorage (handleCallback p (Some code) (Inr response) getContent st)
           ''github_token'' = Some (toStr p token)"
    by (auto simp: handleCallback_success)
  from others frame removal storing show ?thesis by blast
qed

theorem only_github_token_is_stored_witness:
  "localStorage
     (run sample_platform None
        (HandleCallback (Some ''4b1d'') (Inr sample_callback_response) (Inl ''Not Found''))
        sample_client) ''github_token'' = Some ''gho_16C7e42F292c6912E7''
   \<and> localStorage
     (run sample_platform None
        (HandleCallback (Some ''4b1d'') (Inr sample_callback_response) (Inl ''Not Found''))
        sample_client) ''theme'' = None
   \<and> localStorage stored_token_client ''github_token'' = Some ''gho_16C7e42F292c6912E7''
   \<and> localStorage
     (checkAuth sample_platform (Inl ''Bad credentials'') (Inl ''Not Found'')
        stored_token_client) ''github_token'' = None"
proof -
  note t = only_github_token_is_stored
    [where p = sample_platform and targetEnv = None and st = sample_client
       and operation = "HandleCallback (Some ''4b1d'') (Inr sample_callback_response)
                          (Inl ''Not Found'')"]
  note others = t[THEN conjunct1, rule_format]
  note storing = t[THEN conjunct2, THEN conjunct2, THEN conjunct2, rule_format]
  note removal = only_github_token_is_stored
    [where p = sample_platform and st = stored_token_client,
     THEN conjunct2, THEN conjunct2, THEN conjunct1, rule_format]
  have k: "''theme'' \<noteq> ''github_token''" by simp
  have "localStorage
     (run sample_platform None
        (HandleCallback (Some ''4b1d'') (Inr sample_callback_response) (Inl ''Not Found''))
        sample_client) ''theme'' = localStorage sample_client ''theme''"
    using k by (rule others)
  then have other: "localStorage
     (run sample_platform None
        (HandleCallback (Some ''4b1d'') (Inr sample_callback_response) (Inl ''Not Found''))
        sample_client) ''theme'' = None"
    by (simp add: sample_client_def initial_client_def)
  have h: "''4b1d'' \<noteq> [] \<and> response_ok sample_callback_response
     \<and> response_json sample_callback_response
         = Inr (JObject [(''access_token'', JString ''gho_16C7e42F292c6912E7'')])
     \<and> getProp (JObject [(''access_token'', JString ''gho_16C7e42F292c6912E7'')]) ''error''
         = Inr None
     \<and> \<not> truthyOpt None
     \<and> getProp (JObject [(''access_token'', JString ''gho_16C7e42F292c6912E7'')])
           ''access_token'' = Inr (Some (JString ''gho_16C7e42F292c6912E7''))"
    by (simp add: sample_callback_response_def)
  have "localStorage
     (handleCallback sample_platform (Some ''4b1d'') (Inr sample_callback_response)
        (Inl ''Not Found'') sample_client) ''github_token''
     = Some (toStr sample_platform (Some (JString ''gho_16C7e42F292c6912E7'')))"
    using h by (rule storing)
  then have stored: "localStorage
     (run sample_platform None
        (HandleCallback (Some ''4b1d'') (Inr sample_callback_response) (Inl ''Not Found''))
        sample_client) ''github_token'' = Some ''gho_16C7e42F292c6912E7''"
    by (simp add: sample_platform_def)
  have s: "localStorage stored_token_client ''github_token'' = Some ''gho_16C7e42F292c6912E7''"
    by (simp add: stored_token_client_def)
  then have "localStorage stored_token_client ''github_token'' = Some ''gho_16C7e42F292c6912E7''
             \<and> ''gho_16C7e42F292c6912E7'' \<noteq> []"
    by simp
  then have removed: "localStorage
     (checkAuth sample_platform (Inl ''Bad credentials'') (Inl ''Not Found'')
        stored_token_client) ''github_token'' = None"
    by (rule removal)
  from stored other s removed show ?thesis
    by (intro conjI)
qed

section \<open>The status codes of the callback endpoint\<close>

lemma github_callback_status_codes:
  "(req_method request \<noteq> ''POST'' \<longrightarrow>
      github_callback p env fetched request = Inr (405, errorBody ''Method Not Allowed''))
   \<and> (req_method request = ''POST'' \<and> req_body request = Some body
        \<and> getProp body ''code'' = Inr code \<longrightarrow>
        (if \<not> truthyOpt code then
           github_callback p env fetched request
             = Inr (400, errorBody ''Authorization code is missing'')
         else if unset (env_GITHUB_CLIENT_ID env) \<or> unset (env_GITHUB_CLIENT_SECRET env) then
           github_callback p env fetched request
             = Inr (500, errorBody ''Server configuration error: GitHub credentials not set.'')
         else if \<exists>token. exchange_succeeded fetched token then
           \<exists>token. exchange_succeeded fetched token
             \<and> github_callback p env fetched request
                 = Inr (200, JObject [(''access_token'', token)])
         else \<exists>message. github_callback p env fetched request = Inr (500, errorBody message)))
   \<and> (\<forall>answer. github_callback p env fetched request = Inr (200, answer) \<longrightarrow>
         (\<exists>token. exchange_succeeded fetched token
            \<and> answer = JObject [(''access_token'', token)]))"
proof -
  have post: "github_callback p env fetched request = Inr (405, errorBody ''Method Not Allowed'')"
    if "req_method request \<noteq> ''POST''"
    using that by (simp add: github_callback_def)
  have upstream:
    "if \<exists>token. exchange_succeeded fetched token then
           \<exists>token. exchange_succeeded fetched token
             \<and> github_callback p env fetched request
                 = Inr (200, JObject [(''access_token'', token)])
         else \<exists>message. github_callback p env fetched request = Inr (500, errorBody message)"
    if "req_method request = ''POST''" "req_body request = Some body"
      "getProp body ''code'' = Inr code" "truthyOpt code"
      "\<not> (unset (env_GITHUB_CLIENT_ID env) \<or> unset (env_GITHUB_CLIENT_SECRET env))"
    for body code
  proof (cases fetched)
    case (Inl message)
    with that show ?thesis
      by (auto simp: github_callback_def exchange_succeeded_def)
  next
    case f: (Inr githubResponse)
    show ?thesis
    proof (cases "gh_ok githubResponse")
      case False
      with that f show ?thesis
        by (cases "gh_text githubResponse")
           (auto simp: github_callback_def exchange_succeeded_def)
    next
      case ok: True
      show ?thesis
      proof (cases "gh_json githubResponse")
        case (Inl message)
        with that f ok show ?thesis
          by (auto simp: github_callback_def exchange_succeeded_def)
      next
        case j: (Inr data)
        show ?thesis
        proof (cases "getProp data ''error''")
          case (Inl e)
          with that f ok j show ?thesis
            by (auto simp: github_callback_def exchange_succeeded_def)
        next
          case e: (Inr err)
          show ?thesis
          proof (cases "truthyOpt err")
            case True
            with that f ok j e show ?thesis
              by (cases "getProp data ''error_description''")
                 (auto simp: github_callback_def exchange_succeeded_def)
          next
            case ne: False
            show ?thesis
            proof (cases "getProp data ''access_token''")
              case (Inl e')
              with that f ok j e ne show ?thesis
                by (auto simp: github_callback_def exchange_succeeded_def)
            next
              case t: (Inr access_token)
              show ?thesis
              proof (cases access_token)
                case None
                with that f ok j e ne t show ?thesis
                  by (auto simp: github_callback_def exchange_succeeded_def)
              next
                case (Some token)
                with that f ok j e ne t show ?thesis
                  by (cases "truthy token")
                     (auto simp: github_callback_def exchange_succeeded_def)
              qed
            qed
          qed
        qed
      qed
    qed
  qed
  have valid: "if \<not> truthyOpt code then
           github_callback p env fetched request
             = Inr (400, errorBody ''Authorization code is missing'')
         else if unset (env_GITHUB_CLIENT_ID env) \<or> unset (env_GITHUB_CLIENT_SECRET env) then
           github_callback p env fetched request
             = Inr (500, errorBody ''Server configuration error: GitHub credentials not set.'')
         else if \<exists>token. exchange_succeeded fetched token then
           \<exists>token. exchange_succeeded fetched token
             \<and> github_callback p env fetched request
                 = Inr (200, JObject [(''access_token'', token)])
         else \<exists>message. github_callback p env fetched request = Inr (500, errorBody message)"
    if "req_method request = ''POST''" "req_body request = Some body"
      "getProp body ''code'' = Inr code" for body code
  proof (cases "truthyOpt code")
    case False
    with that show ?thesis by (simp add: github_callback_def)
  next
    case True
    show ?thesis
    proof (cases "unset (env_GITHUB_CLIENT_ID env) \<or> unset (env_GITHUB_CLIENT_SECRET env)")
      case u: True
      with that True show ?thesis by (simp add: github_callback_def)
    next
      case False
      with upstream[OF that True] True show ?thesis by simp
    qed
  qed
  have only: "\<exists>token. exchange_succeeded fetched token
            \<and> answer = JObject [(''access_token'', token)]"
    if "github_callback p env fetched request = Inr (200, answer)" for answer
  proof -
    have m: "req_method request = ''POST''"
      using that post by (cases "req_method request = ''POST''") auto
    from that m obtain body where b: "req_body request = Some body"
      by (cases "req_body request") (auto simp: github_callback_def)
    from that m b obtain code where c: "getProp body ''code'' = Inr code"
      by (cases "getProp body ''code''") (auto simp: github_callback_def)
    from valid[OF m b c] that show ?thesis
      by (auto simp: errorBody_def split: if_splits)
  qed
  from post valid only show ?thesis by blast
qed

text \<open>
  C8. A \<^verbatim>\<open>POST\<close> request without a body, or with the body \<^verbatim>\<open>null\<close>, makes the handler
  throw in \<^verbatim>\<open>const { code } = request.body\<close> before it answers, where a request whose
  body lacks a code is to be answered with status 400. For every other request the status
  codes are as \<open>github_callback_status_codes\<close> states.
\<close>

theorem github_callback_without_body:
  "github_callback p env fetched \<lparr>req_method = ''POST'', req_body = None\<rparr> = Inl TypeError
   \<and> github_callback p env fetched \<lparr>req_method = ''POST'', req_body = Some JNull\<rparr>
     = Inl TypeError"
  by (simp add: github_callback_def)

end
